theory Spec2Isabelle
  imports Main
begin

section \<open>Go strings\<close>

text \<open>
  A Go string is a sequence of bytes; \<^typ>\<open>string\<close> (a list of \<^typ>\<open>char\<close>, one per byte)
  models it. \<open>len\<close> is \<^const>\<open>length\<close>, the slice \<open>s[n:]\<close> is \<^term>\<open>drop n s\<close> and
  \<open>s[a:b]\<close> is \<^term>\<open>take (b - a) (drop a s)\<close>; every slice taken by the code is in range
  where it is taken.
\<close>

definition HasPrefix :: "string \<Rightarrow> string \<Rightarrow> bool" where
  \<comment> \<open>\<open>strings.HasPrefix\<close>: \<open>len(s) >= len(prefix) && s[:len(prefix)] == prefix\<close>\<close>
  "HasPrefix s pre = (length pre \<le> length s \<and> take (length pre) s = pre)"

definition Contains :: "string \<Rightarrow> char \<Rightarrow> bool" where
  \<comment> \<open>\<open>strings.Contains(s, sep)\<close> for a separator of one byte\<close>
  "Contains s sep = (sep \<in> set s)"

definition SplitN2 :: "string \<Rightarrow> char \<Rightarrow> string list" where
  \<comment> \<open>\<open>strings.SplitN(s, sep, 2)\<close> for a separator of one byte: the text before the first
      separator and the text after it, or the whole string when there is none\<close>
  "SplitN2 s sep =
     (if sep \<in> set s
      then [takeWhile (\<lambda>c. c \<noteq> sep) s, drop 1 (dropWhile (\<lambda>c. c \<noteq> sep) s)]
      else [s])"

fun Split :: "string \<Rightarrow> char \<Rightarrow> string list" where
  \<comment> \<open>\<open>strings.Split(s, sep)\<close> for a separator of one byte: every piece, empty ones kept\<close>
  "Split [] sep = [[]]"
| "Split (c # s) sep =
     (if c = sep then [] # Split s sep
      else (case Split s sep of p # ps \<Rightarrow> (c # p) # ps | [] \<Rightarrow> [[c]]))"

text \<open>
  \<open>for _, r := range s\<close> decodes \<open>s\<close> as UTF-8, one code point at a time; a byte that
  starts no valid encoding is read as U+FFFD and the cursor moves one byte. \<open>string(r)\<close>
  encodes the code point again, so a valid encoding comes back as it was and an invalid
  byte becomes the three bytes of U+FFFD. \<open>runes s\<close> is the list of \<open>string(r)\<close> over
  that loop.
\<close>

definition RuneError :: string where
  "RuneError = [CHR 0xEF, CHR 0xBF, CHR 0xBD]"

definition acceptLo :: "nat \<Rightarrow> nat" where
  \<comment> \<open>the least second byte allowed after the first byte \<open>c0\<close>\<close>
  "acceptLo c0 = (if c0 = 0xE0 then 0xA0 else if c0 = 0xF0 then 0x90 else 0x80)"

definition acceptHi :: "nat \<Rightarrow> nat" where
  \<comment> \<open>the greatest second byte allowed after the first byte \<open>c0\<close>\<close>
  "acceptHi c0 = (if c0 = 0xED then 0x9F else if c0 = 0xF4 then 0x8F else 0xBF)"

definition isCont :: "char \<Rightarrow> bool" where
  "isCont b = (0x80 \<le> (of_char b :: nat) \<and> (of_char b :: nat) \<le> 0xBF)"

fun runes :: "string \<Rightarrow> string list" where
  "runes [] = []"
| "runes (b0 # s) =
     (if (of_char b0 :: nat) < 0x80 then [b0] # runes s
      else if (of_char b0 :: nat) < 0xC2 \<or> 0xF4 < (of_char b0 :: nat) then RuneError # runes s
      else (case s of
          [] \<Rightarrow> RuneError # runes s
        | b1 # s1 \<Rightarrow>
            if (of_char b1 :: nat) < acceptLo (of_char b0) \<or> acceptHi (of_char b0) < (of_char b1 :: nat)
            then RuneError # runes s
            else if (of_char b0 :: nat) < 0xE0 then [b0, b1] # runes s1
            else (case s1 of
                [] \<Rightarrow> RuneError # runes s
              | b2 # s2 \<Rightarrow>
                  if \<not> isCont b2 then RuneError # runes s
                  else if (of_char b0 :: nat) < 0xF0 then [b0, b1, b2] # runes s2
                  else (case s2 of
                      [] \<Rightarrow> RuneError # runes s
                    | b3 # s3 \<Rightarrow>
                        if \<not> isCont b3 then RuneError # runes s
                        else [b0, b1, b2, b3] # runes s3))))"

section \<open>The tokenizer (args.go)\<close>

text \<open>
  \<open>args.go\<close> declares the tokenizer as \<open>ParseArgs(args)\<close>. The flags pass of the same
  package is \<open>ParseArgs(config, args)\<close>; it and the tests call the tokenizer
  \<open>ParseArguments\<close>, the name used here. The flag mapping is a Go \<open>map[string]string\<close>,
  modelled as \<^typ>\<open>string \<rightharpoonup> string\<close>; the loop keeps the source's index cursor.
\<close>

type_synonym flagmap = "string \<rightharpoonup> string"

fun putAll :: "flagmap \<Rightarrow> string list \<Rightarrow> flagmap" where
  \<comment> \<open>\<open>for _, flag := range arg[1:] { flags[string(flag)] = "" }\<close>\<close>
  "putAll flags [] = flags"
| "putAll flags (k # ks) = putAll (flags(k \<mapsto> [])) ks"

function ParseArguments_loop ::
  "string list \<Rightarrow> nat \<Rightarrow> string list \<Rightarrow> flagmap \<Rightarrow> string list \<times> flagmap" where
  "ParseArguments_loop args i positionalArgs flags =
     (if i < length args then
        (let arg = args ! i;
             hasMoreArgs = (i + 1 < length args);
             nextArgIsValue = (hasMoreArgs \<and> \<not> HasPrefix (args ! (i + 1)) ''-'')
         in
           if HasPrefix arg ''--'' then
             (let key = drop 2 arg in
                if Contains key CHR ''='' then
                  (let parts = SplitN2 key CHR ''='' in
                     ParseArguments_loop args (i + 1) positionalArgs
                       (flags(parts ! 0 \<mapsto> parts ! 1)))
                else if nextArgIsValue then
                  ParseArguments_loop args (i + 1 + 1) positionalArgs
                    (flags(key \<mapsto> args ! (i + 1)))
                else
                  ParseArguments_loop args (i + 1) positionalArgs (flags(key \<mapsto> [])))
           else if HasPrefix arg ''-'' \<and> length arg > 1 then
             (if length arg = 2 \<or> Contains (drop 2 arg) CHR ''='' then
                (if Contains (drop 2 arg) CHR ''='' then
                   (let parts = SplitN2 (drop 2 arg) CHR ''='' in
                      ParseArguments_loop args (i + 1) positionalArgs
                        (flags(parts ! 0 \<mapsto> parts ! 1)))
                 else if nextArgIsValue then
                   ParseArguments_loop args (i + 1 + 1) positionalArgs
                     (flags(take 1 (drop 1 arg) \<mapsto> args ! (i + 1)))
                 else
                   ParseArguments_loop args (i + 1) positionalArgs
                     (flags(take 1 (drop 1 arg) \<mapsto> [])))
              else
                ParseArguments_loop args (i + 1) positionalArgs
                  (putAll flags (runes (drop 1 arg))))
           else
             ParseArguments_loop args (i + 1) (positionalArgs @ [arg]) flags)
      else (positionalArgs, flags))"
  by pat_completeness auto
termination
  by (relation "measure (\<lambda>(args, i, p, f). length args - i)") auto

declare ParseArguments_loop.simps [simp del]

definition ParseArguments :: "string list \<Rightarrow> string list \<times> flagmap" where
  "ParseArguments args = ParseArguments_loop args 0 [] Map.empty"

section \<open>Text to numbers and booleans (strconv)\<close>

text \<open>
  \<open>SetField\<close> calls \<open>strconv.ParseInt(value, 10, 64)\<close>, \<open>strconv.ParseUint(value, 10, 64)\<close>
  and \<open>strconv.ParseBool\<close> of the Go standard library. They are written out here as the
  library computes them for base 10: digit by digit, with the overflow checks of the
  library on an unsigned 64-bit accumulator.
\<close>

datatype numerr = ErrSyntax | ErrRange

definition maxUint64 :: nat where
  "maxUint64 = 2 ^ 64 - 1"

definition isDigit :: "char \<Rightarrow> bool" where
  "isDigit c = (of_char CHR ''0'' \<le> (of_char c :: nat) \<and> (of_char c :: nat) \<le> of_char CHR ''9'')"

definition digitVal :: "char \<Rightarrow> nat" where
  "digitVal c = of_char c - of_char CHR ''0''"

fun ParseUint_loop :: "nat \<Rightarrow> nat \<Rightarrow> string \<Rightarrow> numerr + nat" where
  "ParseUint_loop maxVal n [] = Inr n"
| "ParseUint_loop maxVal n (c # cs) =
     (if \<not> isDigit c then Inl ErrSyntax
      else if n \<ge> maxUint64 div 10 + 1 then Inl ErrRange
      else (let n10 = (n * 10) mod 2 ^ 64;
                n1 = (n10 + digitVal c) mod 2 ^ 64
            in if n1 < n10 \<or> n1 > maxVal then Inl ErrRange
               else ParseUint_loop maxVal n1 cs))"

definition ParseUint :: "string \<Rightarrow> nat \<Rightarrow> numerr + nat" where
  \<comment> \<open>\<open>strconv.ParseUint(s, 10, bitSize)\<close>\<close>
  "ParseUint s bitSize =
     (if s = [] then Inl ErrSyntax
      else ParseUint_loop ((2 ^ bitSize - 1) mod 2 ^ 64) 0 s)"

definition ParseInt :: "string \<Rightarrow> nat \<Rightarrow> numerr + int" where
  \<comment> \<open>\<open>strconv.ParseInt(s, 10, bitSize)\<close>: a leading sign, then the unsigned digits\<close>
  "ParseInt s bitSize =
     (if s = [] then Inl ErrSyntax
      else (let neg = (hd s = CHR ''-'');
                s1 = (if hd s = CHR ''+'' \<or> hd s = CHR ''-'' then tl s else s);
                cutoff = (2::nat) ^ (bitSize - 1)
            in case ParseUint s1 bitSize of
                 Inl ErrSyntax \<Rightarrow> Inl ErrSyntax
               | Inl ErrRange \<Rightarrow> Inl ErrRange
               | Inr un \<Rightarrow>
                   if \<not> neg \<and> un \<ge> cutoff then Inl ErrRange
                   else if neg \<and> un > cutoff then Inl ErrRange
                   else Inr (if neg then - int un else int un)))"

definition ParseBool :: "string \<Rightarrow> numerr + bool" where
  "ParseBool str =
     (if str \<in> {''1'', ''t'', ''T'', ''true'', ''TRUE'', ''True''} then Inr True
      else if str \<in> {''0'', ''f'', ''F'', ''false'', ''FALSE'', ''False''} then Inr False
      else Inl ErrSyntax)"

section \<open>Reflection: types, fields and values\<close>

text \<open>
  The package reads a configuration record through Go's \<open>reflect\<close>. What it asks of a
  type is its \<open>Name()\<close>, its \<open>Kind()\<close>, its element type \<open>Elem()\<close> and whether it
  implements \<open>encoding.TextUnmarshaler\<close>, that is, whether \<open>UnmarshalText\<close> is in its
  method set. A type descriptor holds the first three and how the type declares
  \<open>UnmarshalText\<close>: not at all, with a value receiver (then the method is in the method
  set of the type and of a pointer to it) or with a pointer receiver (then it is in the
  method set of the pointer only).
\<close>

datatype kind =
    Bool | IntK | Int8 | Int16 | Int32 | Int64
  | Uint | Uint8 | Uint16 | Uint32 | Uint64 | Uintptr
  | Float32 | Float64 | Complex64 | Complex128
  | Array | Chan | Func | Interface | Map | Pointer | Slice | String | Struct
  | UnsafePointer

text \<open>\<^term>\<open>IntK\<close> is \<open>reflect.Int\<close>; the other kinds keep their names.\<close>

datatype recv = NoMethod | ValueReceiver | PointerReceiver

datatype rtype =
  RType (TypeName: string) (Kind: kind) (UnmarshalTextDecl: recv) (ElemType: "rtype option")

definition PtrTo :: "rtype \<Rightarrow> rtype" where
  \<comment> \<open>the unnamed pointer type \<open>*T\<close>\<close>
  "PtrTo t = RType [] Pointer NoMethod (Some t)"

definition Elem :: "rtype \<Rightarrow> rtype option" where
  \<comment> \<open>\<open>Type.Elem()\<close>: it panics (\<open>None\<close>) on a kind that has no element type\<close>
  "Elem t = (if Kind t \<in> {Array, Chan, Map, Pointer, Slice} then ElemType t else None)"

definition Implements :: "rtype \<Rightarrow> bool" where
  \<comment> \<open>\<open>t.Implements(u)\<close> for the interface type \<open>u\<close> of \<open>encoding.TextUnmarshaler\<close>\<close>
  "Implements t =
     (UnmarshalTextDecl t = ValueReceiver \<or>
      (Kind t = Pointer \<and>
       (case ElemType t of
          None \<Rightarrow> False
        | Some e \<Rightarrow> UnmarshalTextDecl e \<noteq> NoMethod \<and> Kind e \<noteq> Pointer \<and> Kind e \<noteq> Interface)))"

definition stringType :: rtype where
  \<comment> \<open>the predeclared type \<open>string\<close>\<close>
  "stringType = RType ''string'' String NoMethod None"

typedecl float64

datatype gvalue =
    Zero
  | StringV string
  | IntV int
  | UintV nat
  | BoolV bool
  | FloatV nat float64
  | StringsV "string list"
  | DecodedV rtype string

text \<open>
  \<^term>\<open>Zero\<close> is the value of a field that nothing has set. \<^term>\<open>FloatV b x\<close> is \<open>x\<close>
  converted to a float of \<open>b\<close> bits, and \<^term>\<open>DecodedV t s\<close> the value of type \<open>t\<close> that
  \<open>UnmarshalText\<close> makes of a new zero value and the text \<open>s\<close>.
\<close>

datatype error =
    NumError string string numerr
  | New string
  | Custom string
  | Errorf string "string list" error

text \<open>
  \<^term>\<open>NumError fn num e\<close> is \<open>strconv\<close>'s error (function, input, cause), \<^term>\<open>New m\<close> is
  \<open>errors.New(m)\<close>, \<^term>\<open>Custom m\<close> an error returned by a type's own \<open>UnmarshalText\<close>,
  and \<^term>\<open>Errorf fmt names e\<close> is \<open>fmt.Errorf(fmt, names..., e)\<close>.
\<close>

datatype 'a outcome = Returns 'a | Panics string

record field =
  Name :: string
  Type :: rtype
  Tag :: "string \<rightharpoonup> string"
  CanSet :: bool
  Value :: gvalue

text \<open>
  A \<^typ>\<open>field\<close> is one field of the configuration record, as \<open>v.Field(i)\<close> and
  \<open>t.Field(i)\<close> show it: the declared name, type and tag, whether the field can be set
  (an exported field of an addressable struct), and the value the field holds now.
\<close>

definition Get :: "(string \<rightharpoonup> string) \<Rightarrow> string \<Rightarrow> string" where
  \<comment> \<open>\<open>StructTag.Get\<close>: the empty string when the tag has no such key\<close>
  "Get tag key = (case tag key of None \<Rightarrow> [] | Some v \<Rightarrow> v)"

datatype config = StructPtr "field list" | NotStruct

text \<open>
  \<^term>\<open>StructPtr fs\<close> is a pointer to a struct, or a struct, with the fields \<open>fs\<close> in declaration
  order; \<^term>\<open>NotStruct\<close> is any other argument.
\<close>

record ext =
  ToKebabCase :: "string \<Rightarrow> string"
  ToConstantCase :: "string \<Rightarrow> string"
  ParseFloat :: "string \<Rightarrow> numerr + float64"
  UnmarshalText :: "rtype \<Rightarrow> string \<Rightarrow> error option"

text \<open>
  The collaborators outside the package: the two casing functions of the \<open>words\<close>
  package, \<open>strconv.ParseFloat(s, 64)\<close>, and the \<open>UnmarshalText\<close> methods that the
  caller's types declare (\<^term>\<open>UnmarshalText x t s\<close> is the error, if any, of the method
  of \<open>*t\<close> on a new zero value and the text \<open>s\<close>).
\<close>

section \<open>Field coercion: SetField\<close>

definition bitsOf :: "kind \<Rightarrow> nat" where
  \<comment> \<open>the width of an integer kind; \<open>int\<close> and \<open>uint\<close> are 64 bits wide (a 64-bit platform)\<close>
  "bitsOf k =
     (if k = Int8 \<or> k = Uint8 then 8
      else if k = Int16 \<or> k = Uint16 then 16
      else if k = Int32 \<or> k = Uint32 \<or> k = Float32 then 32
      else 64)"

definition wrapSigned :: "nat \<Rightarrow> int \<Rightarrow> int" where
  \<comment> \<open>the conversion \<open>intN(x)\<close> of a 64-bit integer: the low \<open>N\<close> bits, read in two's complement\<close>
  "wrapSigned n x = (x + 2 ^ (n - 1)) mod 2 ^ n - 2 ^ (n - 1)"

definition wrapUnsigned :: "nat \<Rightarrow> nat \<Rightarrow> nat" where
  \<comment> \<open>the conversion \<open>uintN(x)\<close>: the low \<open>N\<close> bits\<close>
  "wrapUnsigned n x = x mod 2 ^ n"

definition assign :: "field \<Rightarrow> gvalue \<Rightarrow> (error option \<times> field) outcome" where
  \<comment> \<open>a setter of \<open>reflect.Value\<close> followed by \<open>return nil\<close>; the setter panics on a field
      that cannot be set\<close>
  "assign field v =
     (if CanSet field then Returns (None, field\<lparr>Value := v\<rparr>)
      else Panics ''reflect: value is not settable'')"

definition SetString :: "field \<Rightarrow> string \<Rightarrow> (error option \<times> field) outcome" where
  "SetString field x = assign field (StringV x)"

definition SetInt :: "field \<Rightarrow> int \<Rightarrow> (error option \<times> field) outcome" where
  \<comment> \<open>\<open>reflect.Value.SetInt\<close> stores \<open>intN(x)\<close> for a field of \<open>N\<close> bits\<close>
  "SetInt field x = assign field (IntV (wrapSigned (bitsOf (Kind (Type field))) x))"

definition SetUint :: "field \<Rightarrow> nat \<Rightarrow> (error option \<times> field) outcome" where
  "SetUint field x = assign field (UintV (wrapUnsigned (bitsOf (Kind (Type field))) x))"

definition SetBool :: "field \<Rightarrow> bool \<Rightarrow> (error option \<times> field) outcome" where
  "SetBool field x = assign field (BoolV x)"

definition SetFloat :: "field \<Rightarrow> float64 \<Rightarrow> (error option \<times> field) outcome" where
  "SetFloat field x = assign field (FloatV (bitsOf (Kind (Type field))) x)"

definition Set :: "field \<Rightarrow> rtype \<Rightarrow> gvalue \<Rightarrow> (error option \<times> field) outcome" where
  \<comment> \<open>\<open>reflect.Value.Set\<close> of a value \<open>v\<close> of type \<open>vt\<close>: it panics unless the field can be
      set and \<open>vt\<close> is assignable to the field's type. A value of an unnamed slice type is
      assignable to a slice type with the same element type; otherwise the types must be
      the same.\<close>
  "Set field vt v =
     (if \<not> CanSet field then Panics ''reflect: value is not settable''
      else if vt = Type field
              \<or> (Kind vt = Slice \<and> TypeName vt = [] \<and> Kind (Type field) = Slice
                  \<and> ElemType vt = ElemType (Type field))
           then Returns (None, field\<lparr>Value := v\<rparr>)
      else Panics ''reflect.Set: value is not assignable to the type of the field'')"

definition SetField :: "ext \<Rightarrow> field \<Rightarrow> string \<Rightarrow> bool \<Rightarrow> (error option \<times> field) outcome" where
  "SetField x field value exists =
     (let k = Kind (Type field) in
      if k = String then SetString field value
      else if k \<in> {IntK, Int8, Int16, Int32, Int64} then
        (case ParseInt value 64 of
           Inl err \<Rightarrow> Returns (Some (NumError ''ParseInt'' value err), field)
         | Inr intValue \<Rightarrow> SetInt field intValue)
      else if k \<in> {Uint, Uint8, Uint16, Uint32, Uint64} then
        (case ParseUint value 64 of
           Inl err \<Rightarrow> Returns (Some (NumError ''ParseUint'' value err), field)
         | Inr uintValue \<Rightarrow> SetUint field uintValue)
      else if k = Bool then
        (if exists \<and> value = [] then SetBool field True
         else (case ParseBool value of
                 Inl err \<Rightarrow> Returns (Some (NumError ''ParseBool'' value err), field)
               | Inr boolValue \<Rightarrow> SetBool field boolValue))
      else if k \<in> {Float32, Float64} then
        (case ParseFloat x value of
           Inl err \<Rightarrow> Returns (Some (NumError ''ParseFloat'' value err), field)
         | Inr floatValue \<Rightarrow> SetFloat field floatValue)
      else if k = Slice then
        (case Elem (Type field) of
           None \<Rightarrow> Panics ''reflect: Elem of invalid type''
         | Some elemType \<Rightarrow>
             if Kind elemType = String
             then Set field (RType [] Slice NoMethod (Some stringType))
                    (StringsV (Split value CHR '',''))
             else Returns (Some (New ''complex slice types are not supported yet''), field))
      else if Implements (Type field) then
        (case Elem (Type field) of
           None \<Rightarrow> Panics ''reflect: Elem of invalid type''
         | Some elemType \<Rightarrow>
             if \<not> Implements (PtrTo elemType)
             then Panics ''interface conversion: not an encoding.TextUnmarshaler''
             else (case UnmarshalText x elemType value of
                     Some err \<Rightarrow> Returns (Some err, field)
                   | None \<Rightarrow> Set field elemType (DecodedV elemType value)))
      else Returns (Some (New ''unsupported flag type''), field))"

section \<open>The usage text: PrintDefaults\<close>

definition newline :: string where
  "newline = [CHR 0x0A]"

definition padRight :: "nat \<Rightarrow> string \<Rightarrow> string" where
  \<comment> \<open>the verb \<open>%-*s\<close>: spaces after the text, up to the width counted in code points\<close>
  "padRight width s = s @ replicate (width - length (runes s)) CHR '' ''"

definition shortPart :: "field \<Rightarrow> string" where
  "shortPart f = (if Get (Tag f) ''short'' = [] then ''  '' else ''-'' @ Get (Tag f) ''short'')"

definition typeName :: "field \<Rightarrow> string" where
  \<comment> \<open>\<open>field.Type.Name()\<close>, or \<open>"*" + field.Type.Elem().Name()\<close> for a pointer\<close>
  "typeName f =
     (if Kind (Type f) = Pointer
      then ''*'' @ (case ElemType (Type f) of None \<Rightarrow> [] | Some e \<Rightarrow> TypeName e)
      else TypeName (Type f))"

definition longPart :: "ext \<Rightarrow> field \<Rightarrow> string" where
  "longPart x f = ''--'' @ ToKebabCase x (Name f) @ '' '' @ typeName f"

definition defaultStr :: "field \<Rightarrow> string" where
  "defaultStr f =
     (let def = Get (Tag f) ''default'' in
      if def \<noteq> [] \<and> def \<noteq> ''0'' \<and> def \<noteq> ''false'' \<and> def \<noteq> [CHR 0x22, CHR 0x22]
      then '' (default '' @ def @ '')'' else [])"

definition fullUsage :: "field \<Rightarrow> string" where
  "fullUsage f = Get (Tag f) ''usage'' @ defaultStr f"

definition maxNameTypeLength :: "ext \<Rightarrow> field list \<Rightarrow> nat" where
  "maxNameTypeLength x fs = fold (\<lambda>f m. if length (longPart x f) > m then length (longPart x f) else m) fs 0"

definition entryLine :: "ext \<Rightarrow> nat \<Rightarrow> field \<Rightarrow> string" where
  \<comment> \<open>\<open>fmt.Printf("  %s %-*s  %s\n", e[0], maxNameTypeLength, e[1], e[2])\<close>\<close>
  "entryLine x width f =
     ''  '' @ shortPart f @ '' '' @ padRight width (longPart x f) @ ''  '' @ fullUsage f @ newline"

definition PrintDefaults :: "ext \<Rightarrow> config \<Rightarrow> string" where
  \<comment> \<open>the text that \<open>PrintDefaults(config)\<close> writes to the standard output\<close>
  "PrintDefaults x config =
     (case config of
        NotStruct \<Rightarrow> ''Expected a struct'' @ newline
      | StructPtr fs \<Rightarrow>
          ''Usage:'' @ newline @ concat (map (entryLine x (maxNameTypeLength x fs)) fs))"

section \<open>The three passes and ParseAll\<close>

record world =
  conf :: config
  environ :: "string \<rightharpoonup> string"
  stdout :: string

text \<open>
  What the passes read and write: the caller's configuration record, the process
  environment (\<open>os.LookupEnv\<close>) and the text written to the standard output so far. A
  pass returns its results and the world it leaves, or it panics.
\<close>

fun SetDefaults_loop ::
  "ext \<Rightarrow> field list \<Rightarrow> field list \<Rightarrow> (error option \<times> field list) outcome" where
  "SetDefaults_loop x pre [] = Returns (None, pre)"
| "SetDefaults_loop x pre (field # rest) =
     (if \<not> CanSet field then SetDefaults_loop x (pre @ [field]) rest
      else (let defaultValue = Get (Tag field) ''default'' in
        if defaultValue = [] then SetDefaults_loop x (pre @ [field]) rest
        else (case SetField x field defaultValue False of
                Panics m \<Rightarrow> Panics m
              | Returns (Some err, field') \<Rightarrow>
                  Returns (Some (Errorf ''error setting default for field %s: %v'' [Name field] err),
                           pre @ field' # rest)
              | Returns (None, field') \<Rightarrow> SetDefaults_loop x (pre @ [field']) rest)))"

definition SetDefaults :: "ext \<Rightarrow> world \<Rightarrow> (error option \<times> world) outcome" where
  "SetDefaults x w =
     (case conf w of
        NotStruct \<Rightarrow> Returns (Some (New ''config must be a pointer to a struct''), w)
      | StructPtr fs \<Rightarrow>
          (case SetDefaults_loop x [] fs of
             Panics m \<Rightarrow> Panics m
           | Returns (err, fs') \<Rightarrow> Returns (err, w\<lparr>conf := StructPtr fs'\<rparr>)))"

definition envNameOf :: "ext \<Rightarrow> field \<Rightarrow> string" where
  \<comment> \<open>\<open>envName := fieldType.Tag.Get("env"); if envName == "" { envName = words.ToConstantCase(fieldType.Name) }\<close>\<close>
  "envNameOf x field =
     (if Get (Tag field) ''env'' = [] then ToConstantCase x (Name field)
      else Get (Tag field) ''env'')"

fun ParseEnv_loop ::
  "ext \<Rightarrow> (string \<rightharpoonup> string) \<Rightarrow> string \<Rightarrow> field list \<Rightarrow> field list
     \<Rightarrow> (error option \<times> field list \<times> string) outcome" where
  "ParseEnv_loop x env out pre [] = Returns (None, pre, out)"
| "ParseEnv_loop x env out pre (field # rest) =
     (case env (envNameOf x field) of
        None \<Rightarrow> ParseEnv_loop x env out (pre @ [field]) rest
      | Some envValue \<Rightarrow>
          (case SetField x field envValue True of
             Panics m \<Rightarrow> Panics m
           | Returns (Some err, field') \<Rightarrow>
               Returns (Some (Errorf ''error setting environment variable %s: %v''
                                [envNameOf x field] err),
                        pre @ field' # rest,
                        out @ PrintDefaults x (StructPtr (pre @ field' # rest)))
           | Returns (None, field') \<Rightarrow> ParseEnv_loop x env out (pre @ [field']) rest))"

definition ParseEnv :: "ext \<Rightarrow> world \<Rightarrow> (error option \<times> world) outcome" where
  "ParseEnv x w =
     (case conf w of
        NotStruct \<Rightarrow> Returns (Some (New ''config must be a pointer to a struct''), w)
      | StructPtr fs \<Rightarrow>
          (case ParseEnv_loop x (environ w) (stdout w) [] fs of
             Panics m \<Rightarrow> Panics m
           | Returns (err, fs', out') \<Rightarrow> Returns (err, w\<lparr>conf := StructPtr fs', stdout := out'\<rparr>)))"

definition flagNameOf :: "ext \<Rightarrow> field \<Rightarrow> string" where
  \<comment> \<open>\<open>flagName := fieldType.Tag.Get("flag"); if flagName == "" { flagName = words.ToKebabCase(fieldType.Name) }\<close>\<close>
  "flagNameOf x field =
     (if Get (Tag field) ''flag'' = [] then ToKebabCase x (Name field)
      else Get (Tag field) ''flag'')"

definition setFromFlags :: "ext \<Rightarrow> flagmap \<Rightarrow> field \<Rightarrow> (error option \<times> field) outcome" where
  \<comment> \<open>the two lookups of the flags pass for one field: \<open>flags[shortName]\<close>, else
      \<open>flags[flagName]\<close>, else nothing is set and \<open>err\<close> stays \<open>nil\<close>\<close>
  "setFromFlags x flags field =
     (case flags (Get (Tag field) ''short'') of
        Some flagValue \<Rightarrow> SetField x field flagValue True
      | None \<Rightarrow>
          (case flags (flagNameOf x field) of
             Some flagValue \<Rightarrow> SetField x field flagValue True
           | None \<Rightarrow> Returns (None, field)))"

fun ParseArgs_loop ::
  "ext \<Rightarrow> flagmap \<Rightarrow> string \<Rightarrow> field list \<Rightarrow> field list
     \<Rightarrow> (error option \<times> field list \<times> string) outcome" where
  "ParseArgs_loop x flags out pre [] = Returns (None, pre, out)"
| "ParseArgs_loop x flags out pre (field # rest) =
     (case setFromFlags x flags field of
        Panics m \<Rightarrow> Panics m
      | Returns (Some err, field') \<Rightarrow>
          Returns (Some (Errorf ''error parsing flag --%s: %v'' [flagNameOf x field] err),
                   pre @ field' # rest,
                   out @ PrintDefaults x (StructPtr (pre @ field' # rest)))
      | Returns (None, field') \<Rightarrow> ParseArgs_loop x flags out (pre @ [field']) rest)"

definition ParseArgs ::
  "ext \<Rightarrow> world \<Rightarrow> string list \<Rightarrow> ((string list option \<times> error option) \<times> world) outcome" where
  \<comment> \<open>the flags pass; the positional arguments it returns are \<open>None\<close> for Go's \<open>nil\<close>\<close>
  "ParseArgs x w args =
     (case ParseArguments args of
        (outArgs, flags) \<Rightarrow>
          (case conf w of
             NotStruct \<Rightarrow> Returns ((None, Some (New ''config must be a pointer to a struct'')), w)
           | StructPtr fs \<Rightarrow>
               (case ParseArgs_loop x flags (stdout w) [] fs of
                  Panics m \<Rightarrow> Panics m
                | Returns (Some err, fs', out') \<Rightarrow>
                    Returns ((None, Some err), w\<lparr>conf := StructPtr fs', stdout := out'\<rparr>)
                | Returns (None, fs', out') \<Rightarrow>
                    Returns ((Some outArgs, None), w\<lparr>conf := StructPtr fs', stdout := out'\<rparr>))))"

definition helpRequested :: "string list \<Rightarrow> bool" where
  \<comment> \<open>\<open>for _, arg := range args { if arg == "--help" || arg == "-h" { ... } }\<close>\<close>
  "helpRequested args = list_ex (\<lambda>arg. arg = ''--help'' \<or> arg = ''-h'') args"

definition ParseAll ::
  "ext \<Rightarrow> world \<Rightarrow> string list \<Rightarrow> ((string list option \<times> error option) \<times> world) outcome" where
  "ParseAll x w args =
     (case SetDefaults x w of
        Panics m \<Rightarrow> Panics m
      | Returns (Some err, w1) \<Rightarrow>
          Returns ((None, Some (Errorf ''error setting default values: %v'' [] err)), w1)
      | Returns (None, w1) \<Rightarrow>
          (case ParseEnv x w1 of
             Panics m \<Rightarrow> Panics m
           | Returns (Some err, w2) \<Rightarrow>
               Returns ((None, Some (Errorf ''error parsing environment variables: %v'' [] err)), w2)
           | Returns (None, w2) \<Rightarrow>
               if helpRequested args
               then Returns ((None, None), w2\<lparr>stdout := stdout w2 @ PrintDefaults x (conf w2)\<rparr>)
               else (case ParseArgs x w2 args of
                       Panics m \<Rightarrow> Panics m
                     | Returns ((outArgs, Some err), w3) \<Rightarrow>
                         Returns ((None, Some (Errorf ''error parsing command-line arguments: %v'' [] err)), w3)
                     | Returns ((outArgs, None), w3) \<Rightarrow> Returns ((outArgs, None), w3))))"

section \<open>One iteration at a time\<close>

text \<open>
  What one iteration of the tokenizer's loop does at cursor \<open>i\<close>: whether it also consumes
  the next token as a value, the positional arguments it appends and the flag entries it
  writes, in order. The branches are those of the loop body; \<open>ParseArguments_loop_step\<close>
  below shows that the loop is this step and a move of the cursor.
\<close>

type_synonym tokenStep = "bool \<times> string list \<times> (string \<times> string) list"

definition tokenStep :: "string list \<Rightarrow> nat \<Rightarrow> tokenStep" where
  "tokenStep args i =
     (let arg = args ! i;
          hasMoreArgs = (i + 1 < length args);
          nextArgIsValue = (hasMoreArgs \<and> \<not> HasPrefix (args ! (i + 1)) ''-'')
      in
        if HasPrefix arg ''--'' then
          (let key = drop 2 arg in
             if Contains key CHR ''='' then
               (let parts = SplitN2 key CHR ''='' in (False, [], [(parts ! 0, parts ! 1)]))
             else if nextArgIsValue then (True, [], [(key, args ! (i + 1))])
             else (False, [], [(key, [])]))
        else if HasPrefix arg ''-'' \<and> length arg > 1 then
          (if length arg = 2 \<or> Contains (drop 2 arg) CHR ''='' then
             (if Contains (drop 2 arg) CHR ''='' then
                (let parts = SplitN2 (drop 2 arg) CHR ''='' in (False, [], [(parts ! 0, parts ! 1)]))
              else if nextArgIsValue then (True, [], [(take 1 (drop 1 arg), args ! (i + 1))])
              else (False, [], [(take 1 (drop 1 arg), [])]))
           else (False, [], map (\<lambda>k. (k, [])) (runes (drop 1 arg))))
        else (False, [arg], []))"

definition record_writes :: "(string \<times> string) list \<Rightarrow> flagmap \<Rightarrow> flagmap" where
  \<comment> \<open>the assignments \<open>flags[k] = v\<close>, in order\<close>
  "record_writes ws flags = fold (\<lambda>(k, v) m. m(k \<mapsto> v)) ws flags"

function steps :: "string list \<Rightarrow> nat \<Rightarrow> (nat \<times> tokenStep) list" where
  \<comment> \<open>the iterations the loop makes from cursor \<open>i\<close>, each with its cursor\<close>
  "steps args i =
     (if i < length args
      then (i, tokenStep args i) # steps args (i + 1 + (if fst (tokenStep args i) then 1 else 0))
      else [])"
  by pat_completeness auto
termination
  by (relation "measure (\<lambda>(args, i). length args - i)") auto

declare steps.simps [simp del]

definition consumedBy :: "nat \<times> tokenStep \<Rightarrow> nat list" where
  \<comment> \<open>the indices of the tokens an iteration consumes\<close>
  "consumedBy s = (case s of (j, takesNext, ps, ws) \<Rightarrow> if takesNext then [j, j + 1] else [j])"

definition positionalsOf :: "nat \<times> tokenStep \<Rightarrow> string list" where
  "positionalsOf s = (case s of (j, takesNext, ps, ws) \<Rightarrow> ps)"

definition writesOf :: "nat \<times> tokenStep \<Rightarrow> (string \<times> string) list" where
  "writesOf s = (case s of (j, takesNext, ps, ws) \<Rightarrow> ws)"

text \<open>
  The three passes run the same loop over the fields: a step that may set the field, an
  error that stops the loop, a panic that ends everything. \<open>fieldLoop\<close> is that loop for
  any step; it returns the cause and the field of a failure. The lemmas
  \<open>SetDefaults_loop_fieldLoop\<close>, \<open>ParseEnv_loop_fieldLoop\<close> and \<open>ParseArgs_loop_fieldLoop\<close>
  below show that each pass is this loop with its own step.
\<close>

fun fieldLoop ::
  "(field \<Rightarrow> (error option \<times> field) outcome) \<Rightarrow> field list \<Rightarrow> field list
     \<Rightarrow> ((error \<times> field) option \<times> field list) outcome" where
  "fieldLoop step pre [] = Returns (None, pre)"
| "fieldLoop step pre (field # rest) =
     (case step field of
        Panics m \<Rightarrow> Panics m
      | Returns (Some err, field') \<Rightarrow> Returns (Some (err, field), pre @ field' # rest)
      | Returns (None, field') \<Rightarrow> fieldLoop step (pre @ [field']) rest)"

definition defaultStep :: "ext \<Rightarrow> field \<Rightarrow> (error option \<times> field) outcome" where
  "defaultStep x field =
     (if \<not> CanSet field \<or> Get (Tag field) ''default'' = [] then Returns (None, field)
      else SetField x field (Get (Tag field) ''default'') False)"

definition envStep :: "ext \<Rightarrow> (string \<rightharpoonup> string) \<Rightarrow> field \<Rightarrow> (error option \<times> field) outcome" where
  "envStep x env field =
     (case env (envNameOf x field) of
        None \<Rightarrow> Returns (None, field)
      | Some envValue \<Rightarrow> SetField x field envValue True)"

section \<open>Concrete inputs\<close>

text \<open>
  The inputs at which the theorems below are evaluated. The casing functions stand for
  the \<open>words\<close> package on plain identifiers: a word starts at each upper-case letter.
\<close>

definition upperLetters :: string where
  "upperLetters = ''ABCDEFGHIJKLMNOPQRSTUVWXYZ''"

definition lowerLetters :: string where
  "lowerLetters = ''abcdefghijklmnopqrstuvwxyz''"

definition isUpper :: "char \<Rightarrow> bool" where
  "isUpper c = (c \<in> set upperLetters)"

definition toLower :: "char \<Rightarrow> char" where
  "toLower c = (case map_of (zip upperLetters lowerLetters) c of None \<Rightarrow> c | Some l \<Rightarrow> l)"

definition toUpper :: "char \<Rightarrow> char" where
  "toUpper c = (case map_of (zip lowerLetters upperLetters) c of None \<Rightarrow> c | Some u \<Rightarrow> u)"

definition kebabCase :: "string \<Rightarrow> string" where
  "kebabCase s =
     (case s of
        [] \<Rightarrow> []
      | c # cs \<Rightarrow>
          toLower c # concat (map (\<lambda>d. if isUpper d then [CHR ''-'', toLower d] else [d]) cs))"

definition constantCase :: "string \<Rightarrow> string" where
  "constantCase s =
     (case s of
        [] \<Rightarrow> []
      | c # cs \<Rightarrow>
          toUpper c # concat (map (\<lambda>d. if isUpper d then [CHR ''_'', d] else [toUpper d]) cs))"

definition sampleExt :: ext where
  \<comment> \<open>no text is a float, and a type's \<open>UnmarshalText\<close> refuses the empty text only\<close>
  "sampleExt =
     \<lparr>ToKebabCase = kebabCase, ToConstantCase = constantCase,
      ParseFloat = (\<lambda>s. Inl ErrSyntax),
      UnmarshalText = (\<lambda>t s. if s = [] then Some (Custom ''empty text'') else None)\<rparr>"

definition intType :: rtype where
  "intType = RType ''int'' IntK NoMethod None"

definition int8Type :: rtype where
  "int8Type = RType ''int8'' Int8 NoMethod None"

definition boolType :: rtype where
  "boolType = RType ''bool'' Bool NoMethod None"

definition levelType :: rtype where
  \<comment> \<open>\<open>type Level struct {...}\<close> with \<open>func (l *Level) UnmarshalText(text []byte) error\<close>\<close>
  "levelType = RType ''Level'' Struct PointerReceiver None"

definition mkField :: "string \<Rightarrow> rtype \<Rightarrow> (string \<times> string) list \<Rightarrow> field" where
  \<comment> \<open>an exported field that nothing has set yet\<close>
  "mkField n t tags = \<lparr>Name = n, Type = t, Tag = map_of tags, CanSet = True, Value = Zero\<rparr>"

definition portField :: field where
  \<comment> \<open>\<open>PortNumber int `default:"8080"`\<close>\<close>
  "portField = mkField ''PortNumber'' intType [(''default'', ''8080'')]"


definition hostField :: field where
  \<comment> \<open>\<open>HostName string `default:"localhost"`\<close>\<close>
  "hostField = mkField ''HostName'' stringType [(''default'', ''localhost'')]"

definition badDefaultField :: field where
  \<comment> \<open>\<open>PortNumber int `default:"abc"`\<close>\<close>
  "badDefaultField = mkField ''PortNumber'' intType [(''default'', ''abc'')]"

definition timeoutField :: field where
  \<comment> \<open>\<open>Timeout int `flag:"timeout"`\<close>\<close>
  "timeoutField = mkField ''Timeout'' intType [(''flag'', ''timeout'')]"

definition pointerField :: field where
  \<comment> \<open>\<open>Timeout *int `short:"t" default:"5"`\<close>\<close>
  "pointerField = mkField ''Timeout'' (PtrTo intType) [(''short'', ''t''), (''default'', ''5'')]"

definition mixedArgs :: "string list" where
  "mixedArgs = [''cmd'', ''-k'', ''value'', ''--long=other'', ''-abc'', ''end'']"

definition mkWorld :: "field list \<Rightarrow> (string \<times> string) list \<Rightarrow> world" where
  "mkWorld fs env = \<lparr>conf = StructPtr fs, environ = map_of env, stdout = []\<rparr>"

section \<open>Unfolding rules for evaluation\<close>

lemmas strings_defs = HasPrefix_def Contains_def SplitN2_def

lemmas tokenizer_defs = ParseArguments_def ParseArguments_loop.simps strings_defs

lemmas strconv_defs =
  ParseInt_def ParseUint_def ParseBool_def isDigit_def digitVal_def maxUint64_def

lemmas reflect_defs =
  SetString_def SetInt_def SetUint_def SetBool_def SetFloat_def Set_def assign_def
  Elem_def Implements_def PtrTo_def bitsOf_def wrapSigned_def wrapUnsigned_def stringType_def

lemmas print_defs =
  PrintDefaults_def entryLine_def maxNameTypeLength_def fullUsage_def defaultStr_def
  longPart_def typeName_def shortPart_def padRight_def newline_def Get_def

lemmas pass_defs =
  ParseAll_def ParseArgs_def ParseEnv_def SetDefaults_def helpRequested_def
  setFromFlags_def flagNameOf_def envNameOf_def Get_def Let_def

lemmas sample_defs =
  sampleExt_def intType_def mkField_def mkWorld_def
  kebabCase_def constantCase_def toUpper_def toLower_def isUpper_def
  upperLetters_def lowerLetters_def

section \<open>The tokenizer\<close>

lemma ParseArguments_loop_done:
  "length args \<le> i \<Longrightarrow> ParseArguments_loop args i p f = (p, f)"
  by (subst ParseArguments_loop.simps) simp

text \<open>
  C2. The token \<open>-k=value\<close> is meant to record \<open>flags["k"] = "value"\<close> (the source's comment
  on this branch reads \<open>Handle -k value or -k=value\<close>). The branch splits \<open>arg[2:]\<close>, which
  is \<open>=value\<close>, so the name before the first \<open>=\<close> is empty: the tokenizer records the
  value under the empty key and records nothing under \<open>k\<close>.
\<close>

theorem ParseArguments_short_equals_empty_key:
  "ParseArguments [''-k=value''] = ([], [[] \<mapsto> ''value''])
   \<and> snd (ParseArguments [''-k=value'']) ''k'' = None"
  by (simp add: tokenizer_defs)

lemma step_projections [simp]:
  "consumedBy (j, t, ps, ws) = (if t then [j, j + 1] else [j])"
  "positionalsOf (j, t, ps, ws) = ps"
  "writesOf (j, t, ps, ws) = ws"
  by (simp_all add: consumedBy_def positionalsOf_def writesOf_def)

lemma putAll_record_writes:
  "putAll flags ks = record_writes (map (\<lambda>k. (k, [])) ks) flags"
  by (induction ks arbitrary: flags) (simp_all add: record_writes_def)

lemma ParseArguments_loop_step:
  "i < length args \<Longrightarrow>
   ParseArguments_loop args i p f =
     (case tokenStep args i of
        (takesNext, ps, ws) \<Rightarrow>
          ParseArguments_loop args (i + 1 + (if takesNext then 1 else 0)) (p @ ps) (record_writes ws f))"
  by (subst ParseArguments_loop.simps)
     (simp add: tokenStep_def Let_def putAll_record_writes, simp add: record_writes_def)

lemma record_writes_append:
  "record_writes (ws @ ws') f = record_writes ws' (record_writes ws f)"
  by (simp add: record_writes_def)

lemma steps_unfold:
  "i < length args \<Longrightarrow> tokenStep args i = (t, ps, ws) \<Longrightarrow>
   steps args i = (i, t, ps, ws) # steps args (i + 1 + (if t then 1 else 0))"
  by (subst steps.simps) simp

lemma steps_done: "length args \<le> i \<Longrightarrow> steps args i = []"
  by (subst steps.simps) simp

lemma ParseArguments_loop_steps:
  "ParseArguments_loop args i p f =
     (p @ concat (map positionalsOf (steps args i)),
      record_writes (concat (map writesOf (steps args i))) f)"
proof (induction args i arbitrary: p f rule: steps.induct)
  case (1 args i)
  show ?case
  proof (cases "i < length args")
    case True
    obtain t ps ws where st: "tokenStep args i = (t, ps, ws)" by (cases "tokenStep args i")
    have "ParseArguments_loop args i p f =
            ParseArguments_loop args (i + 1 + (if t then 1 else 0)) (p @ ps) (record_writes ws f)"
      using True st by (simp add: ParseArguments_loop_step)
    also have "\<dots> = (p @ ps @ concat (map positionalsOf (steps args (i + 1 + (if t then 1 else 0)))),
        record_writes (concat (map writesOf (steps args (i + 1 + (if t then 1 else 0)))))
          (record_writes ws f))"
      using "1.IH" [OF True, of "p @ ps" "record_writes ws f"] st by simp
    finally show ?thesis
      by (simp add: steps_unfold [OF True st] record_writes_append)
  next
    case False
    then show ?thesis
      by (simp add: steps_done ParseArguments_loop_done record_writes_def)
  qed
qed

lemma tokenStep_takes_next:
  "fst (tokenStep args i) \<Longrightarrow> i + 1 < length args"
  by (auto simp: tokenStep_def Let_def split: if_splits)

lemma steps_consume:
  "i \<le> length args \<Longrightarrow> concat (map consumedBy (steps args i)) = [i..<length args]"
proof (induction args i rule: steps.induct)
  case (1 args i)
  show ?case
  proof (cases "i < length args")
    case True
    obtain t ps ws where st: "tokenStep args i = (t, ps, ws)" by (cases "tokenStep args i")
    have next_ok: "i + 1 + (if t then 1 else 0) \<le> length args"
      using True st tokenStep_takes_next [of args i] by auto
    have "concat (map consumedBy (steps args (i + 1 + (if t then 1 else 0))))
            = [i + 1 + (if t then 1 else 0)..<length args]"
      using "1.IH" [OF True] st next_ok by simp
    then show ?thesis
      using True next_ok
      by (auto simp: steps_unfold [OF True st] upt_conv_Cons)
  next
    case False
    with "1.prems" show ?thesis by (simp add: steps_done)
  qed
qed

lemma runes_nonempty: "s \<noteq> [] \<Longrightarrow> runes s \<noteq> []"
  by (cases s) (auto split: list.splits)

lemma tokenStep_shape:
  assumes "tokenStep args i = (t, ps, ws)"
  shows "(ps = [args ! i] \<and> ws = [] \<and> \<not> t)
         \<or> (ps = [] \<and> ws \<noteq> [] \<and> (t \<longrightarrow> (\<exists>k. ws = [(k, args ! (i + 1))])))"
proof -
  have "drop 1 (args ! i) \<noteq> []" if "1 < length (args ! i)"
    using that by simp
  then show ?thesis
    using assms runes_nonempty [of "drop 1 (args ! i)"]
    by (auto simp: tokenStep_def Let_def split: if_splits)
qed

lemma steps_index:
  "(j, st) \<in> set (steps args i) \<Longrightarrow> i \<le> j \<and> j < length args \<and> st = tokenStep args j"
proof (induction args i rule: steps.induct)
  case (1 args i)
  show ?case
  proof (cases "i < length args")
    case True
    obtain t ps ws where st: "tokenStep args i = (t, ps, ws)" by (cases "tokenStep args i")
    from "1.prems" have "(j, st) = (i, tokenStep args i)
        \<or> (j, st) \<in> set (steps args (i + 1 + (if fst (tokenStep args i) then 1 else 0)))"
      by (simp add: steps_unfold [OF True st] st)
    then show ?thesis
      using "1.IH" [OF True] True by auto
  next
    case False
    with "1.prems" show ?thesis by (simp add: steps_done)
  qed
qed


lemma record_writes_map_of:
  "record_writes ws f = f ++ map_of (rev ws)"
proof (induction ws arbitrary: f)
  case Nil
  then show ?case by (simp add: record_writes_def)
next
  case (Cons w ws)
  obtain k v where w: "w = (k, v)" by (cases w)
  have "record_writes (w # ws) f = record_writes ws (f(k \<mapsto> v))"
    by (simp add: record_writes_def w)
  also have "\<dots> = f(k \<mapsto> v) ++ map_of (rev ws)"
    by (rule Cons.IH)
  also have "\<dots> = f ++ map_of (rev (w # ws))"
    by (auto simp: w map_add_def fun_eq_iff split: option.splits)
  finally show ?case .
qed

text \<open>
  C5. Every token is consumed by exactly one iteration of the loop, in order: the
  indices consumed by the iterations, put end to end, are \<open>0, ..., len(args) - 1\<close>. An
  iteration appends its token to the positional arguments and writes no flag, or it
  appends nothing and writes flag entries; when it consumes the next token too, that
  token is the value of the one entry it writes. The positional arguments are the tokens
  appended, in order, and the flag mapping holds, for each key written, its last value.
  An iteration can write several entries (one for each character of \<open>-abc\<close>), and an
  entry written again under the same key replaces the earlier one.
\<close>

theorem ParseArguments_accounts_for_tokens:
  "concat (map consumedBy (steps args 0)) = [0..<length args]
   \<and> (\<forall>s \<in> set (steps args 0).
         case s of (j, takesNext, ps, ws) \<Rightarrow>
           (ps = [args ! j] \<and> ws = [] \<and> \<not> takesNext)
           \<or> (ps = [] \<and> ws \<noteq> [] \<and> (takesNext \<longrightarrow> (\<exists>k. ws = [(k, args ! (j + 1))]))))
   \<and> fst (ParseArguments args) = concat (map positionalsOf (steps args 0))
   \<and> snd (ParseArguments args) = map_of (rev (concat (map writesOf (steps args 0))))"
proof (intro conjI ballI)
  show "concat (map consumedBy (steps args 0)) = [0..<length args]"
    by (rule steps_consume) simp
next
  fix s assume s: "s \<in> set (steps args 0)"
  obtain j t ps ws where eq: "s = (j, t, ps, ws)" by (cases s) auto
  with s have "tokenStep args j = (t, ps, ws)"
    using steps_index [of j "(t, ps, ws)" args 0] by simp
  from tokenStep_shape [OF this] eq
  show "case s of (j, takesNext, ps, ws) \<Rightarrow>
           (ps = [args ! j] \<and> ws = [] \<and> \<not> takesNext)
           \<or> (ps = [] \<and> ws \<noteq> [] \<and> (takesNext \<longrightarrow> (\<exists>k. ws = [(k, args ! (j + 1))])))"
    by simp
next
  show "fst (ParseArguments args) = concat (map positionalsOf (steps args 0))"
    by (simp add: ParseArguments_def ParseArguments_loop_steps)
next
  show "snd (ParseArguments args) = map_of (rev (concat (map writesOf (steps args 0))))"
    by (simp add: ParseArguments_def ParseArguments_loop_steps record_writes_map_of)
qed

lemma steps_mixedArgs:
  "steps mixedArgs 0 =
     [(0, False, [''cmd''], []),
      (1, True, [], [(''k'', ''value'')]),
      (3, False, [], [(''long'', ''other'')]),
      (4, False, [], [(''a'', []), (''b'', []), (''c'', [])]),
      (5, False, [''end''], [])]"
  by (simp add: mixedArgs_def steps.simps tokenStep_def strings_defs)

theorem ParseArguments_accounts_for_tokens_witness:
  "concat (map consumedBy (steps mixedArgs 0)) = [0, 1, 2, 3, 4, 5]
   \<and> fst (ParseArguments mixedArgs) = [''cmd'', ''end'']
   \<and> snd (ParseArguments mixedArgs)
       = [''k'' \<mapsto> ''value'', ''long'' \<mapsto> ''other'', ''a'' \<mapsto> [], ''b'' \<mapsto> [], ''c'' \<mapsto> []]"
proof -
  have len: "[0..<length mixedArgs] = [0, 1, 2, 3, 4, 5]"
    by (simp add: mixedArgs_def upt_conv_Cons)
  have m: "map_of (rev (concat (map writesOf (steps mixedArgs 0))))
      = [''k'' \<mapsto> ''value'', ''long'' \<mapsto> ''other'', ''a'' \<mapsto> [], ''b'' \<mapsto> [], ''c'' \<mapsto> []]"
    by (simp add: steps_mixedArgs)
  show ?thesis
    using ParseArguments_accounts_for_tokens [of mixedArgs] len m
    by (simp add: steps_mixedArgs)
qed

text \<open>
  The one token \<open>-abc\<close> makes three entries, and of two tokens that set the same key
  the first leaves nothing in the result.
\<close>

theorem ParseArguments_combined_three_entries:
  "ParseArguments [''-abc''] = ([], [''a'' \<mapsto> [], ''b'' \<mapsto> [], ''c'' \<mapsto> []])
   \<and> ParseArguments [''--a=1'', ''--a=2''] = ParseArguments [''--a=2'']"
  by (simp add: tokenizer_defs)

section \<open>Field coercion\<close>

text \<open>
  C1. On a boolean field that can be set, an empty value that was explicitly present
  assigns \<open>true\<close>. The literal \<open>false\<close> is not empty, so it is parsed whether or not it was
  explicitly present, and assigns \<open>false\<close>: presence does not override a literal.
\<close>

theorem SetField_bool_presence:
  assumes "Kind (Type field) = Bool" and "CanSet field"
  shows "SetField x field [] True = Returns (None, field\<lparr>Value := BoolV True\<rparr>)
         \<and> SetField x field ''false'' True = Returns (None, field\<lparr>Value := BoolV False\<rparr>)"
  using assms by (simp add: SetField_def reflect_defs ParseBool_def)

theorem SetField_bool_presence_witness:
  "SetField sampleExt (mkField ''Verbose'' boolType []) [] True
     = Returns (None, (mkField ''Verbose'' boolType [])\<lparr>Value := BoolV True\<rparr>)
   \<and> SetField sampleExt (mkField ''Verbose'' boolType []) ''false'' True
     = Returns (None, (mkField ''Verbose'' boolType [])\<lparr>Value := BoolV False\<rparr>)"
  by (rule SetField_bool_presence) (simp_all add: mkField_def boolType_def)

theorem SetField_bool_false_literal_not_true:
  "SetField sampleExt (mkField ''Verbose'' boolType []) ''false'' True
     \<noteq> Returns (None, (mkField ''Verbose'' boolType [])\<lparr>Value := BoolV True\<rparr>)"
  by (simp add: SetField_def reflect_defs ParseBool_def mkField_def boolType_def)

text \<open>
  C3. \<open>SetField\<close> parses every integer kind with a bit size of 64 and stores the result
  through \<open>SetInt\<close>, which converts it to the width of the field. On an \<open>int8\<close> field the
  literal \<open>300\<close> fits 64 bits, so no error is returned, and the field holds \<open>int8(300)\<close>,
  which is 44.
\<close>

theorem SetField_int8_truncates:
  "SetField sampleExt (mkField ''Small'' int8Type []) ''300'' True
     = Returns (None, (mkField ''Small'' int8Type [])\<lparr>Value := IntV 44\<rparr>)"
  by (simp add: SetField_def reflect_defs strconv_defs mkField_def int8Type_def)

text \<open>
  A literal beyond 64 bits is refused on every signed integer field, as the test
  \<open>int overflow\<close> expects.
\<close>

lemma SetField_signed_overflow:
  assumes "Kind (Type field) \<in> {IntK, Int8, Int16, Int32, Int64}"
  shows "SetField x field ''99999999999999999999'' exists
           = Returns (Some (NumError ''ParseInt'' ''99999999999999999999'' ErrRange), field)"
proof -
  have "ParseInt ''99999999999999999999'' 64 = Inl ErrRange"
    by (simp add: strconv_defs)
  with assms show ?thesis
    by (auto simp: SetField_def)
qed

lemma assign_cases:
  "assign f v = Returns (err, f') \<Longrightarrow> err = None \<and> f' = f\<lparr>Value := v\<rparr> \<and> CanSet f"
  by (auto simp: assign_def split: if_splits)

lemma Set_cases:
  "Set f vt v = Returns (err, f') \<Longrightarrow> err = None \<and> f' = f\<lparr>Value := v\<rparr> \<and> CanSet f"
  by (auto simp: Set_def split: if_splits)

lemma SetField_error_unchanged:
  assumes "SetField x f v e = Returns (Some err, f')"
  shows "f' = f"
  using assms
  by (auto simp: SetField_def Let_def SetString_def SetInt_def SetUint_def SetBool_def SetFloat_def
      dest!: assign_cases Set_cases split: if_splits sum.splits option.splits)




text \<open>
  C9. \<open>Level\<close> declares \<open>UnmarshalText\<close> on its pointer, so a field of type \<open>*Level\<close>
  implements \<open>encoding.TextUnmarshaler\<close>. \<open>SetField\<close> decodes the text into a new \<open>Level\<close>
  and then calls \<open>field.Set(reflect.ValueOf(unmarshaler).Elem())\<close>: the value it passes
  has type \<open>Level\<close>, the field has type \<open>*Level\<close>, and \<open>reflect.Value.Set\<close> panics. The
  decoded value is not assigned.
\<close>

theorem SetField_decoded_pointer_panics:
  "Implements (PtrTo levelType)
   \<and> UnmarshalText sampleExt levelType ''debug'' = None
   \<and> SetField sampleExt (mkField ''Level'' (PtrTo levelType) []) ''debug'' True
       = Panics ''reflect.Set: value is not assignable to the type of the field''"
  by (simp add: SetField_def reflect_defs sample_defs levelType_def)

section \<open>The passes\<close>

lemma SetDefaults_loop_fieldLoop:
  "SetDefaults_loop x pre fs =
     (case fieldLoop (defaultStep x) pre fs of
        Panics m \<Rightarrow> Panics m
      | Returns (None, fs') \<Rightarrow> Returns (None, fs')
      | Returns (Some (cause, f), fs') \<Rightarrow>
          Returns (Some (Errorf ''error setting default for field %s: %v'' [Name f] cause), fs'))"
  by (induction fs arbitrary: pre)
     (auto simp: defaultStep_def Let_def split: outcome.splits option.splits prod.splits)

lemma ParseEnv_loop_fieldLoop:
  "ParseEnv_loop x env out pre fs =
     (case fieldLoop (envStep x env) pre fs of
        Panics m \<Rightarrow> Panics m
      | Returns (None, fs') \<Rightarrow> Returns (None, fs', out)
      | Returns (Some (cause, f), fs') \<Rightarrow>
          Returns (Some (Errorf ''error setting environment variable %s: %v'' [envNameOf x f] cause),
                   fs', out @ PrintDefaults x (StructPtr fs')))"
  by (induction fs arbitrary: pre)
     (auto simp: envStep_def Let_def split: outcome.splits option.splits prod.splits)

lemma ParseArgs_loop_fieldLoop:
  "ParseArgs_loop x flags out pre fs =
     (case fieldLoop (setFromFlags x flags) pre fs of
        Panics m \<Rightarrow> Panics m
      | Returns (None, fs') \<Rightarrow> Returns (None, fs', out)
      | Returns (Some (cause, f), fs') \<Rightarrow>
          Returns (Some (Errorf ''error parsing flag --%s: %v'' [flagNameOf x f] cause),
                   fs', out @ PrintDefaults x (StructPtr fs')))"
  by (induction fs arbitrary: pre)
     (auto simp: Let_def split: outcome.splits option.splits prod.splits)

lemma fieldLoop_success:
  "fieldLoop step pre fs = Returns (None, fs') \<longleftrightarrow>
     (\<exists>new. fs' = pre @ new \<and> list_all2 (\<lambda>f f'. step f = Returns (None, f')) fs new)"
proof (induction fs arbitrary: pre)
  case Nil
  then show ?case by auto
next
  case (Cons field rest)
  show ?case
  proof (cases "step field")
    case (Panics m)
    then show ?thesis by (auto simp: list_all2_Cons1)
  next
    case (Returns r)
    obtain err f' where r: "r = (err, f')" by (cases r)
    show ?thesis
    proof (cases err)
      case None
      with Returns r Cons.IH [of "pre @ [f']"] show ?thesis
        by (auto simp: list_all2_Cons1)
    next
      case (Some c)
      with Returns r show ?thesis by (auto simp: list_all2_Cons1)
    qed
  qed
qed

lemma fieldLoop_error:
  assumes "fieldLoop step pre fs = Returns (Some (cause, f), fs')"
  shows "\<exists>p rest p' f'.
           fs = p @ f # rest \<and> step f = Returns (Some cause, f')
           \<and> fs' = p' @ f' # rest \<and> length p' = length pre + length p"
  using assms
proof (induction fs arbitrary: pre)
  case Nil
  then show ?case by simp
next
  case (Cons field rest)
  show ?case
  proof (cases "step field")
    case (Panics m)
    with Cons.prems show ?thesis by simp
  next
    case (Returns r)
    obtain err g where r: "r = (err, g)" by (cases r)
    show ?thesis
    proof (cases err)
      case None
      with Returns r Cons.prems
      have "fieldLoop step (pre @ [g]) rest = Returns (Some (cause, f), fs')" by simp
      from Cons.IH [OF this] obtain p r' p' f' where
        "rest = p @ f # r'" "step f = Returns (Some cause, f')"
        "fs' = p' @ f' # r'" "length p' = length (pre @ [g]) + length p"
        by blast
      then show ?thesis
        by (intro exI [of _ "field # p"] exI [of _ r'] exI [of _ p'] exI [of _ f']) simp
    next
      case (Some c)
      with Returns r Cons.prems show ?thesis
        by (intro exI [of _ "[]"] exI [of _ rest] exI [of _ pre] exI [of _ g]) simp
    qed
  qed
qed

lemma fieldLoop_every_step:
  assumes "fieldLoop step pre fs = Returns (None, fs')" and "f \<in> set fs"
  shows "\<exists>f'. step f = Returns (None, f')"
  using assms by (auto simp: fieldLoop_success list_all2_conv_all_nth in_set_conv_nth)


lemma SetDefaults_success:
  assumes "conf w = StructPtr fs" and "SetDefaults x w = Returns (None, w')"
  shows "\<exists>fs'. fieldLoop (defaultStep x) [] fs = Returns (None, fs') \<and> w' = w\<lparr>conf := StructPtr fs'\<rparr>"
  using assms
  by (auto simp: SetDefaults_def SetDefaults_loop_fieldLoop split: outcome.splits option.splits prod.splits)

lemma ParseEnv_success:
  assumes "conf w = StructPtr fs" and "ParseEnv x w = Returns (None, w')"
  shows "\<exists>fs'. fieldLoop (envStep x (environ w)) [] fs = Returns (None, fs') \<and> w' = w\<lparr>conf := StructPtr fs'\<rparr>"
  using assms
  by (auto simp: ParseEnv_def ParseEnv_loop_fieldLoop split: outcome.splits option.splits prod.splits)

lemma ParseArgs_success:
  assumes "conf w = StructPtr fs" and "ParseArgs x w args = Returns ((r, None), w')"
  shows "\<exists>fs'. fieldLoop (setFromFlags x (snd (ParseArguments args))) [] fs = Returns (None, fs')
               \<and> w' = w\<lparr>conf := StructPtr fs'\<rparr> \<and> r = Some (fst (ParseArguments args))"
  using assms
  by (auto simp: ParseArgs_def ParseArgs_loop_fieldLoop split: outcome.splits option.splits prod.splits)

lemma SetDefaults_failure:
  assumes "conf w = StructPtr fs" and "SetDefaults x w = Returns (Some e, w')"
  shows "\<exists>cause f fs'. fieldLoop (defaultStep x) [] fs = Returns (Some (cause, f), fs')
           \<and> e = Errorf ''error setting default for field %s: %v'' [Name f] cause
           \<and> w' = w\<lparr>conf := StructPtr fs'\<rparr>"
  using assms
  by (auto simp: SetDefaults_def SetDefaults_loop_fieldLoop split: outcome.splits option.splits prod.splits)

lemma ParseEnv_failure:
  assumes "conf w = StructPtr fs" and "ParseEnv x w = Returns (Some e, w')"
  shows "\<exists>cause f fs'. fieldLoop (envStep x (environ w)) [] fs = Returns (Some (cause, f), fs')
           \<and> e = Errorf ''error setting environment variable %s: %v'' [envNameOf x f] cause
           \<and> w' = w\<lparr>conf := StructPtr fs', stdout := stdout w @ PrintDefaults x (StructPtr fs')\<rparr>"
  using assms
  by (auto simp: ParseEnv_def ParseEnv_loop_fieldLoop split: outcome.splits option.splits prod.splits)

lemma ParseArgs_failure:
  assumes "conf w = StructPtr fs" and "ParseArgs x w args = Returns ((r, Some e), w')"
  shows "\<exists>cause f fs'. fieldLoop (setFromFlags x (snd (ParseArguments args))) [] fs
             = Returns (Some (cause, f), fs')
           \<and> e = Errorf ''error parsing flag --%s: %v'' [flagNameOf x f] cause
           \<and> w' = w\<lparr>conf := StructPtr fs', stdout := stdout w @ PrintDefaults x (StructPtr fs')\<rparr>
           \<and> r = None"
  using assms
  by (auto simp: ParseArgs_def ParseArgs_loop_fieldLoop split: outcome.splits option.splits prod.splits)

lemma defaultStep_error:
  "defaultStep x f = Returns (Some cause, f') \<Longrightarrow>
     f' = f \<and> CanSet f \<and> Get (Tag f) ''default'' \<noteq> []
     \<and> SetField x f (Get (Tag f) ''default'') False = Returns (Some cause, f)"
  by (auto simp: defaultStep_def split: if_splits dest: SetField_error_unchanged)

lemma envStep_error:
  "envStep x env f = Returns (Some cause, f') \<Longrightarrow>
     f' = f \<and> (\<exists>v. env (envNameOf x f) = Some v \<and> SetField x f v True = Returns (Some cause, f))"
  by (auto simp: envStep_def split: option.splits dest: SetField_error_unchanged)

lemma setFromFlags_error:
  "setFromFlags x flags f = Returns (Some cause, f') \<Longrightarrow>
     f' = f \<and> (\<exists>v. (flags (Get (Tag f) ''short'') = Some v
                    \<or> (flags (Get (Tag f) ''short'') = None \<and> flags (flagNameOf x f) = Some v))
                 \<and> SetField x f v True = Returns (Some cause, f))"
  by (auto simp: setFromFlags_def split: option.splits dest: SetField_error_unchanged)

text \<open>
  C7. \<open>HostName\<close> has no \<open>short\<close> tag, so \<open>Tag.Get("short")\<close> is the empty string, and
  the flags pass looks the empty string up in the flag mapping. The tokenizer records the
  token \<open>--\<close> under the empty key, with the next token as its value. The field is then
  set from that entry, though the mapping holds no entry for a short key of the field nor
  for its long key \<open>host-name\<close>.
\<close>

theorem ParseArgs_empty_short_key:
  "ParseArguments [''--'', ''x''] = ([], [[] \<mapsto> ''x''])
   \<and> Tag (mkField ''HostName'' stringType []) ''short'' = None
   \<and> snd (ParseArguments [''--'', ''x'']) (flagNameOf sampleExt (mkField ''HostName'' stringType [])) = None
   \<and> ParseArgs sampleExt (mkWorld [mkField ''HostName'' stringType []] []) [''--'', ''x'']
       = Returns ((Some [], None),
                  mkWorld [(mkField ''HostName'' stringType [])\<lparr>Value := StringV ''x''\<rparr>] [])"
  by (simp add: tokenizer_defs pass_defs SetField_def reflect_defs sample_defs)

lemma helpRequested_iff: "helpRequested args \<longleftrightarrow> ''--help'' \<in> set args \<or> ''-h'' \<in> set args"
  by (auto simp: helpRequested_def list_ex_iff)

text \<open>
  C4. When the defaults pass and the environment pass have returned no error and an
  argument is \<open>--help\<close> or \<open>-h\<close>, \<open>ParseAll\<close> writes the usage text and returns \<open>nil, nil\<close>;
  the configuration record is as the environment pass left it, so the flags pass has not
  run. (This \<open>ParseAll\<close> returns the positional arguments and the error only.)
\<close>

theorem ParseAll_help:
  assumes "''--help'' \<in> set args \<or> ''-h'' \<in> set args"
    and "SetDefaults x w = Returns (None, w1)"
    and "ParseEnv x w1 = Returns (None, w2)"
  shows "ParseAll x w args
           = Returns ((None, None), w2\<lparr>stdout := stdout w2 @ PrintDefaults x (conf w2)\<rparr>)"
  using assms by (simp add: ParseAll_def helpRequested_iff)

theorem ParseAll_help_witness:
  "ParseAll sampleExt (mkWorld [portField] [(''PORT_NUMBER'', ''3000'')]) [''--port-number=9090'', ''--help'']
     = Returns ((None, None),
         (mkWorld [portField\<lparr>Value := IntV 3000\<rparr>] [(''PORT_NUMBER'', ''3000'')])
           \<lparr>stdout := ''Usage:'' @ newline @ ''     --port-number int   (default 8080)'' @ newline\<rparr>)"
proof -
  let ?w = "mkWorld [portField] [(''PORT_NUMBER'', ''3000'')]"
  let ?w1 = "mkWorld [portField\<lparr>Value := IntV 8080\<rparr>] [(''PORT_NUMBER'', ''3000'')]"
  let ?w2 = "mkWorld [portField\<lparr>Value := IntV 3000\<rparr>] [(''PORT_NUMBER'', ''3000'')]"
  have h: "''--help'' \<in> set [''--port-number=9090'', ''--help''] \<or> ''-h'' \<in> set [''--port-number=9090'', ''--help'']"
    by simp
  have d: "SetDefaults sampleExt ?w = Returns (None, ?w1)"
    by (simp add: pass_defs SetField_def reflect_defs strconv_defs sample_defs portField_def)
  have e: "ParseEnv sampleExt ?w1 = Returns (None, ?w2)"
    by (simp add: pass_defs SetField_def reflect_defs strconv_defs sample_defs portField_def)
  have p: "stdout ?w2 @ PrintDefaults sampleExt (conf ?w2) = ''Usage:'' @ newline @ ''     --port-number int   (default 8080)'' @ newline"
    by (simp add: print_defs sample_defs portField_def)
  show ?thesis
    using ParseAll_help [OF h d e] p by simp
qed

text \<open>
  With a default that does not parse, \<open>ParseAll\<close> returns the error of the defaults pass
  although \<open>--help\<close> is among the arguments, and writes no usage text.
\<close>

theorem ParseAll_help_after_failed_default:
  "ParseAll sampleExt (mkWorld [mkField ''PortNumber'' intType [(''default'', ''abc'')]] []) [''--help'']
     = Returns ((None,
                 Some (Errorf ''error setting default values: %v'' []
                   (Errorf ''error setting default for field %s: %v'' [''PortNumber'']
                     (NumError ''ParseInt'' ''abc'' ErrSyntax)))),
                mkWorld [mkField ''PortNumber'' intType [(''default'', ''abc'')]] [])"
  by (simp add: pass_defs SetField_def reflect_defs strconv_defs sample_defs)




lemma fieldLoop_first_failure:
  assumes "list_all2 (\<lambda>g g'. step g = Returns (None, g')) p p'"
    and "step f = Returns (Some cause, f')"
  shows "fieldLoop step pre (p @ f # rest) = Returns (Some (cause, f), pre @ p' @ f' # rest)"
  using assms(1)
proof (induction p p' arbitrary: pre rule: list_all2_induct)
  case Nil
  with assms(2) show ?case by simp
next
  case (Cons g gs g' gs')
  from Cons.IH [of "pre @ [g']"] Cons.hyps(1) show ?case by simp
qed

lemma pass_failure_result:
  assumes "conf w = StructPtr (p @ f # rest)"
  shows "(list_all2 (\<lambda>g g'. defaultStep x g = Returns (None, g')) p p'
          \<and> CanSet f \<and> Get (Tag f) ''default'' \<noteq> []
          \<and> SetField x f (Get (Tag f) ''default'') False = Returns (Some cause, f)
          \<longrightarrow> SetDefaults x w
                = Returns (Some (Errorf ''error setting default for field %s: %v'' [Name f] cause),
                           w\<lparr>conf := StructPtr (p' @ f # rest)\<rparr>))
       \<and> (list_all2 (\<lambda>g g'. envStep x (environ w) g = Returns (None, g')) p p'
          \<and> environ w (envNameOf x f) = Some v
          \<and> SetField x f v True = Returns (Some cause, f)
          \<longrightarrow> ParseEnv x w
                = Returns (Some (Errorf ''error setting environment variable %s: %v''
                                   [envNameOf x f] cause),
                           w\<lparr>conf := StructPtr (p' @ f # rest),
                             stdout := stdout w @ PrintDefaults x (StructPtr (p' @ f # rest))\<rparr>))
       \<and> (list_all2 (\<lambda>g g'. setFromFlags x (snd (ParseArguments args)) g = Returns (None, g')) p p'
          \<and> (snd (ParseArguments args) (Get (Tag f) ''short'') = Some v
               \<or> snd (ParseArguments args) (Get (Tag f) ''short'') = None
                  \<and> snd (ParseArguments args) (flagNameOf x f) = Some v)
          \<and> SetField x f v True = Returns (Some cause, f)
          \<longrightarrow> ParseArgs x w args
                = Returns ((None, Some (Errorf ''error parsing flag --%s: %v'' [flagNameOf x f] cause)),
                           w\<lparr>conf := StructPtr (p' @ f # rest),
                             stdout := stdout w @ PrintDefaults x (StructPtr (p' @ f # rest))\<rparr>))"
proof (intro conjI impI)
  assume h: "list_all2 (\<lambda>g g'. defaultStep x g = Returns (None, g')) p p'
          \<and> CanSet f \<and> Get (Tag f) ''default'' \<noteq> []
          \<and> SetField x f (Get (Tag f) ''default'') False = Returns (Some cause, f)"
  then have "defaultStep x f = Returns (Some cause, f)" by (simp add: defaultStep_def)
  with h have "fieldLoop (defaultStep x) [] (p @ f # rest)
                 = Returns (Some (cause, f), [] @ p' @ f # rest)"
    by (intro fieldLoop_first_failure) simp_all
  with assms show "SetDefaults x w
      = Returns (Some (Errorf ''error setting default for field %s: %v'' [Name f] cause),
                 w\<lparr>conf := StructPtr (p' @ f # rest)\<rparr>)"
    by (simp add: SetDefaults_def SetDefaults_loop_fieldLoop)
next
  assume h: "list_all2 (\<lambda>g g'. envStep x (environ w) g = Returns (None, g')) p p'
          \<and> environ w (envNameOf x f) = Some v
          \<and> SetField x f v True = Returns (Some cause, f)"
  then have "envStep x (environ w) f = Returns (Some cause, f)" by (simp add: envStep_def)
  with h have "fieldLoop (envStep x (environ w)) [] (p @ f # rest)
                 = Returns (Some (cause, f), [] @ p' @ f # rest)"
    by (intro fieldLoop_first_failure) simp_all
  with assms show "ParseEnv x w
      = Returns (Some (Errorf ''error setting environment variable %s: %v'' [envNameOf x f] cause),
                 w\<lparr>conf := StructPtr (p' @ f # rest),
                   stdout := stdout w @ PrintDefaults x (StructPtr (p' @ f # rest))\<rparr>)"
    by (simp add: ParseEnv_def ParseEnv_loop_fieldLoop)
next
  let ?flags = "snd (ParseArguments args)"
  assume h: "list_all2 (\<lambda>g g'. setFromFlags x ?flags g = Returns (None, g')) p p'
          \<and> (?flags (Get (Tag f) ''short'') = Some v
               \<or> ?flags (Get (Tag f) ''short'') = None \<and> ?flags (flagNameOf x f) = Some v)
          \<and> SetField x f v True = Returns (Some cause, f)"
  then have "setFromFlags x ?flags f = Returns (Some cause, f)"
    by (auto simp: setFromFlags_def)
  with h have "fieldLoop (setFromFlags x ?flags) [] (p @ f # rest)
                 = Returns (Some (cause, f), [] @ p' @ f # rest)"
    by (intro fieldLoop_first_failure) simp_all
  with assms show "ParseArgs x w args
      = Returns ((None, Some (Errorf ''error parsing flag --%s: %v'' [flagNameOf x f] cause)),
                 w\<lparr>conf := StructPtr (p' @ f # rest),
                   stdout := stdout w @ PrintDefaults x (StructPtr (p' @ f # rest))\<rparr>)"
    by (auto simp: ParseArgs_def ParseArgs_loop_fieldLoop split: prod.splits)
qed

lemma PrintDefaults_usage:
  "PrintDefaults x (StructPtr fs)
     = ''Usage:'' @ newline @ concat (map (entryLine x (maxNameTypeLength x fs)) fs)"
  by (simp add: PrintDefaults_def)

lemma PrintDefaults_nonempty: "PrintDefaults x c \<noteq> []"
  by (cases c) (simp_all add: PrintDefaults_def newline_def)

text \<open>
  C8. When the fields before \<open>f\<close> are processed without error and the coercion of \<open>f\<close>
  fails, each pass stops at \<open>f\<close> and returns the error of the coercion, wrapped: the
  fields after \<open>f\<close> are as they were. The defaults pass names the field and leaves the
  standard output as it was. The environment pass names the environment variable, the
  flags pass names the long flag (also when the value came from the short key), and both
  have appended the usage text of the configuration record to the standard output: the
  line \<open>Usage:\<close> and one line for each field, so the output is no longer what it was.
\<close>

theorem pass_failure_and_usage:
  assumes "conf w = StructPtr (p @ f # rest)"
  shows "(list_all2 (\<lambda>g g'. defaultStep x g = Returns (None, g')) p p'
          \<and> CanSet f \<and> Get (Tag f) ''default'' \<noteq> []
          \<and> SetField x f (Get (Tag f) ''default'') False = Returns (Some cause, f)
          \<longrightarrow> SetDefaults x w
                = Returns (Some (Errorf ''error setting default for field %s: %v'' [Name f] cause),
                           w\<lparr>conf := StructPtr (p' @ f # rest)\<rparr>)
              \<and> stdout (w\<lparr>conf := StructPtr (p' @ f # rest)\<rparr>) = stdout w)
       \<and> (list_all2 (\<lambda>g g'. envStep x (environ w) g = Returns (None, g')) p p'
          \<and> environ w (envNameOf x f) = Some v
          \<and> SetField x f v True = Returns (Some cause, f)
          \<longrightarrow> ParseEnv x w
                = Returns (Some (Errorf ''error setting environment variable %s: %v''
                                   [envNameOf x f] cause),
                           w\<lparr>conf := StructPtr (p' @ f # rest),
                             stdout := stdout w @ PrintDefaults x (StructPtr (p' @ f # rest))\<rparr>)
              \<and> PrintDefaults x (StructPtr (p' @ f # rest))
                  = ''Usage:'' @ newline
                    @ concat (map (entryLine x (maxNameTypeLength x (p' @ f # rest))) (p' @ f # rest))
              \<and> stdout w @ PrintDefaults x (StructPtr (p' @ f # rest)) \<noteq> stdout w)
       \<and> (list_all2 (\<lambda>g g'. setFromFlags x (snd (ParseArguments args)) g = Returns (None, g')) p p'
          \<and> (snd (ParseArguments args) (Get (Tag f) ''short'') = Some v
               \<or> snd (ParseArguments args) (Get (Tag f) ''short'') = None
                  \<and> snd (ParseArguments args) (flagNameOf x f) = Some v)
          \<and> SetField x f v True = Returns (Some cause, f)
          \<longrightarrow> ParseArgs x w args
                = Returns ((None, Some (Errorf ''error parsing flag --%s: %v'' [flagNameOf x f] cause)),
                           w\<lparr>conf := StructPtr (p' @ f # rest),
                             stdout := stdout w @ PrintDefaults x (StructPtr (p' @ f # rest))\<rparr>)
              \<and> PrintDefaults x (StructPtr (p' @ f # rest))
                  = ''Usage:'' @ newline
                    @ concat (map (entryLine x (maxNameTypeLength x (p' @ f # rest))) (p' @ f # rest))
              \<and> stdout w @ PrintDefaults x (StructPtr (p' @ f # rest)) \<noteq> stdout w)"
  using pass_failure_result [OF assms, of x p' cause v args]
  by (simp add: PrintDefaults_usage newline_def)

lemma usage_host_port:
  "PrintDefaults sampleExt (StructPtr [hostField, portField])
     = ''Usage:'' @ newline
       @ ''     --host-name string   (default localhost)'' @ newline
       @ ''     --port-number int    (default 8080)'' @ newline"
  by (simp add: print_defs sample_defs hostField_def portField_def stringType_def)

lemma usage_host_timeout:
  "PrintDefaults sampleExt (StructPtr [hostField, timeoutField])
     = ''Usage:'' @ newline
       @ ''     --host-name string   (default localhost)'' @ newline
       @ ''     --timeout int       '' @ newline"
  by (simp add: print_defs sample_defs hostField_def timeoutField_def stringType_def)

theorem pass_failure_and_usage_witness:
  "SetDefaults sampleExt (mkWorld [hostField, badDefaultField] [])
     = Returns (Some (Errorf ''error setting default for field %s: %v'' [''PortNumber'']
                       (NumError ''ParseInt'' ''abc'' ErrSyntax)),
                mkWorld [hostField\<lparr>Value := StringV ''localhost''\<rparr>, badDefaultField] [])
   \<and> stdout (mkWorld [hostField\<lparr>Value := StringV ''localhost''\<rparr>, badDefaultField] []) = []
   \<and> ParseEnv sampleExt (mkWorld [hostField, portField] [(''PORT_NUMBER'', ''x'')])
     = Returns (Some (Errorf ''error setting environment variable %s: %v'' [''PORT_NUMBER'']
                       (NumError ''ParseInt'' ''x'' ErrSyntax)),
                (mkWorld [hostField, portField] [(''PORT_NUMBER'', ''x'')])
                  \<lparr>stdout := ''Usage:'' @ newline
                      @ ''     --host-name string   (default localhost)'' @ newline
                      @ ''     --port-number int    (default 8080)'' @ newline\<rparr>)
   \<and> ParseArgs sampleExt (mkWorld [hostField, timeoutField] []) [''--timeout=thirty'']
     = Returns ((None, Some (Errorf ''error parsing flag --%s: %v'' [''timeout'']
                       (NumError ''ParseInt'' ''thirty'' ErrSyntax))),
                (mkWorld [hostField, timeoutField] [])
                  \<lparr>stdout := ''Usage:'' @ newline
                      @ ''     --host-name string   (default localhost)'' @ newline
                      @ ''     --timeout int       '' @ newline\<rparr>)"
proof -
  let ?host' = "hostField\<lparr>Value := StringV ''localhost''\<rparr>"
  have flags: "snd (ParseArguments [''--timeout=thirty'']) = [''timeout'' \<mapsto> ''thirty'']"
    by (simp add: tokenizer_defs)
  have d: "list_all2 (\<lambda>g g'. defaultStep sampleExt g = Returns (None, g')) [hostField] [?host']
          \<and> CanSet badDefaultField \<and> Get (Tag badDefaultField) ''default'' \<noteq> []
          \<and> SetField sampleExt badDefaultField (Get (Tag badDefaultField) ''default'') False
              = Returns (Some (NumError ''ParseInt'' ''abc'' ErrSyntax), badDefaultField)"
    by (simp add: defaultStep_def SetField_def reflect_defs strconv_defs sample_defs Get_def
        hostField_def badDefaultField_def)
  have e: "list_all2 (\<lambda>g g'. envStep sampleExt (environ (mkWorld [hostField, portField] [(''PORT_NUMBER'', ''x'')])) g
                        = Returns (None, g')) [hostField] [hostField]
          \<and> environ (mkWorld [hostField, portField] [(''PORT_NUMBER'', ''x'')]) (envNameOf sampleExt portField) = Some ''x''
          \<and> SetField sampleExt portField ''x'' True
              = Returns (Some (NumError ''ParseInt'' ''x'' ErrSyntax), portField)"
    by (simp add: envStep_def envNameOf_def SetField_def reflect_defs strconv_defs sample_defs Get_def
        hostField_def portField_def)
  have a: "list_all2 (\<lambda>g g'. setFromFlags sampleExt (snd (ParseArguments [''--timeout=thirty''])) g
                        = Returns (None, g')) [hostField] [hostField]
          \<and> (snd (ParseArguments [''--timeout=thirty'']) (Get (Tag timeoutField) ''short'') = Some ''thirty''
               \<or> snd (ParseArguments [''--timeout=thirty'']) (Get (Tag timeoutField) ''short'') = None
                  \<and> snd (ParseArguments [''--timeout=thirty'']) (flagNameOf sampleExt timeoutField) = Some ''thirty'')
          \<and> SetField sampleExt timeoutField ''thirty'' True
              = Returns (Some (NumError ''ParseInt'' ''thirty'' ErrSyntax), timeoutField)"
    by (simp add: flags setFromFlags_def flagNameOf_def SetField_def reflect_defs strconv_defs sample_defs Get_def
        hostField_def timeoutField_def)
  have names: "Name badDefaultField = ''PortNumber''" "envNameOf sampleExt portField = ''PORT_NUMBER''"
    "flagNameOf sampleExt timeoutField = ''timeout''"
    by (simp_all add: envNameOf_def flagNameOf_def Get_def sample_defs badDefaultField_def portField_def timeoutField_def)
  have c1: "conf (mkWorld [hostField, badDefaultField] []) = StructPtr ([hostField] @ badDefaultField # [])"
    and c2: "conf (mkWorld [hostField, portField] [(''PORT_NUMBER'', ''x'')]) = StructPtr ([hostField] @ portField # [])"
    and c3: "conf (mkWorld [hostField, timeoutField] []) = StructPtr ([hostField] @ timeoutField # [])"
    by (simp_all add: mkWorld_def)
  from pass_failure_and_usage [OF c1, THEN conjunct1, rule_format, OF d]
  have r1: "SetDefaults sampleExt (mkWorld [hostField, badDefaultField] [])
     = Returns (Some (Errorf ''error setting default for field %s: %v'' [''PortNumber'']
                       (NumError ''ParseInt'' ''abc'' ErrSyntax)),
                mkWorld [?host', badDefaultField] [])
     \<and> stdout (mkWorld [?host', badDefaultField] []) = []"
    by (simp add: names mkWorld_def)
  from pass_failure_and_usage [OF c2, THEN conjunct2, THEN conjunct1, rule_format, OF e]
  have r2: "ParseEnv sampleExt (mkWorld [hostField, portField] [(''PORT_NUMBER'', ''x'')])
     = Returns (Some (Errorf ''error setting environment variable %s: %v'' [''PORT_NUMBER'']
                       (NumError ''ParseInt'' ''x'' ErrSyntax)),
                (mkWorld [hostField, portField] [(''PORT_NUMBER'', ''x'')])
                  \<lparr>stdout := PrintDefaults sampleExt (StructPtr [hostField, portField])\<rparr>)"
    by (simp add: names mkWorld_def)
  from pass_failure_and_usage [OF c3, THEN conjunct2, THEN conjunct2, rule_format, OF a]
  have r3: "ParseArgs sampleExt (mkWorld [hostField, timeoutField] []) [''--timeout=thirty'']
     = Returns ((None, Some (Errorf ''error parsing flag --%s: %v'' [''timeout'']
                       (NumError ''ParseInt'' ''thirty'' ErrSyntax))),
                (mkWorld [hostField, timeoutField] [])
                  \<lparr>stdout := PrintDefaults sampleExt (StructPtr [hostField, timeoutField])\<rparr>)"
    by (simp add: names mkWorld_def)
  from r1 r2 r3 show ?thesis
    by (simp only: usage_host_port usage_host_timeout)
qed

text \<open>
  Conversely, a pass that returns an error has stopped at a field whose coercion failed,
  and the error and the standard output are as above.
\<close>

lemma pass_error_shape:
  assumes "conf w = StructPtr fs"
  shows "(SetDefaults x w = Returns (Some e, w') \<longrightarrow>
           stdout w' = stdout w
           \<and> (\<exists>p f rest cause p'.
                 fs = p @ f # rest \<and> conf w' = StructPtr (p' @ f # rest) \<and> length p' = length p
                 \<and> SetField x f (Get (Tag f) ''default'') False = Returns (Some cause, f)
                 \<and> e = Errorf ''error setting default for field %s: %v'' [Name f] cause))
       \<and> (ParseEnv x w = Returns (Some e, w') \<longrightarrow>
           stdout w' = stdout w @ PrintDefaults x (conf w')
           \<and> (\<exists>p f rest cause p' v.
                 fs = p @ f # rest \<and> conf w' = StructPtr (p' @ f # rest) \<and> length p' = length p
                 \<and> environ w (envNameOf x f) = Some v
                 \<and> SetField x f v True = Returns (Some cause, f)
                 \<and> e = Errorf ''error setting environment variable %s: %v'' [envNameOf x f] cause))
       \<and> (ParseArgs x w args = Returns ((r, Some e), w') \<longrightarrow>
           r = None \<and> stdout w' = stdout w @ PrintDefaults x (conf w')
           \<and> (\<exists>p f rest cause p' v.
                 fs = p @ f # rest \<and> conf w' = StructPtr (p' @ f # rest) \<and> length p' = length p
                 \<and> (snd (ParseArguments args) (Get (Tag f) ''short'') = Some v
                      \<or> (snd (ParseArguments args) (Get (Tag f) ''short'') = None
                          \<and> snd (ParseArguments args) (flagNameOf x f) = Some v))
                 \<and> SetField x f v True = Returns (Some cause, f)
                 \<and> e = Errorf ''error parsing flag --%s: %v'' [flagNameOf x f] cause))"
proof (intro conjI impI)
  assume run: "SetDefaults x w = Returns (Some e, w')"
  from SetDefaults_failure [OF assms run] obtain cause f fs' where
    loop: "fieldLoop (defaultStep x) [] fs = Returns (Some (cause, f), fs')"
    and e: "e = Errorf ''error setting default for field %s: %v'' [Name f] cause"
    and w': "w' = w\<lparr>conf := StructPtr fs'\<rparr>"
    by blast
  from fieldLoop_error [OF loop] obtain p rest p' f' where
    parts: "fs = p @ f # rest" "defaultStep x f = Returns (Some cause, f')"
      "fs' = p' @ f' # rest" "length p' = length p"
    by auto
  from defaultStep_error [OF parts(2)] parts e w'
  show "\<exists>p f rest cause p'.
           fs = p @ f # rest \<and> conf w' = StructPtr (p' @ f # rest) \<and> length p' = length p
           \<and> SetField x f (Get (Tag f) ''default'') False = Returns (Some cause, f)
           \<and> e = Errorf ''error setting default for field %s: %v'' [Name f] cause"
    by (intro exI [of _ p] exI [of _ f] exI [of _ rest] exI [of _ cause] exI [of _ p']) simp
  from w' show "stdout w' = stdout w" by simp
next
  assume run: "ParseEnv x w = Returns (Some e, w')"
  from ParseEnv_failure [OF assms run] obtain cause f fs' where
    loop: "fieldLoop (envStep x (environ w)) [] fs = Returns (Some (cause, f), fs')"
    and e: "e = Errorf ''error setting environment variable %s: %v'' [envNameOf x f] cause"
    and w': "w' = w\<lparr>conf := StructPtr fs', stdout := stdout w @ PrintDefaults x (StructPtr fs')\<rparr>"
    by blast
  from fieldLoop_error [OF loop] obtain p rest p' f' where
    parts: "fs = p @ f # rest" "envStep x (environ w) f = Returns (Some cause, f')"
      "fs' = p' @ f' # rest" "length p' = length p"
    by auto
  from envStep_error [OF parts(2)] obtain v where
    "f' = f" "environ w (envNameOf x f) = Some v" "SetField x f v True = Returns (Some cause, f)"
    by blast
  with parts e w'
  show "\<exists>p f rest cause p' v.
           fs = p @ f # rest \<and> conf w' = StructPtr (p' @ f # rest) \<and> length p' = length p
           \<and> environ w (envNameOf x f) = Some v
           \<and> SetField x f v True = Returns (Some cause, f)
           \<and> e = Errorf ''error setting environment variable %s: %v'' [envNameOf x f] cause"
    by (intro exI [of _ p] exI [of _ f] exI [of _ rest] exI [of _ cause] exI [of _ p'] exI [of _ v])
       simp
  from w' show "stdout w' = stdout w @ PrintDefaults x (conf w')" by simp
next
  assume run: "ParseArgs x w args = Returns ((r, Some e), w')"
  let ?flags = "snd (ParseArguments args)"
  from ParseArgs_failure [OF assms run] obtain cause f fs' where
    loop: "fieldLoop (setFromFlags x ?flags) [] fs = Returns (Some (cause, f), fs')"
    and e: "e = Errorf ''error parsing flag --%s: %v'' [flagNameOf x f] cause"
    and w': "w' = w\<lparr>conf := StructPtr fs', stdout := stdout w @ PrintDefaults x (StructPtr fs')\<rparr>"
    and r: "r = None"
    by blast
  from fieldLoop_error [OF loop] obtain p rest p' f' where
    parts: "fs = p @ f # rest" "setFromFlags x ?flags f = Returns (Some cause, f')"
      "fs' = p' @ f' # rest" "length p' = length p"
    by auto
  from setFromFlags_error [OF parts(2)] obtain v where
    "f' = f"
    "?flags (Get (Tag f) ''short'') = Some v
       \<or> (?flags (Get (Tag f) ''short'') = None \<and> ?flags (flagNameOf x f) = Some v)"
    "SetField x f v True = Returns (Some cause, f)"
    by blast
  with parts e w'
  show "\<exists>p f rest cause p' v.
           fs = p @ f # rest \<and> conf w' = StructPtr (p' @ f # rest) \<and> length p' = length p
           \<and> (?flags (Get (Tag f) ''short'') = Some v
                \<or> (?flags (Get (Tag f) ''short'') = None \<and> ?flags (flagNameOf x f) = Some v))
           \<and> SetField x f v True = Returns (Some cause, f)
           \<and> e = Errorf ''error parsing flag --%s: %v'' [flagNameOf x f] cause"
    by (intro exI [of _ p] exI [of _ f] exI [of _ rest] exI [of _ cause] exI [of _ p'] exI [of _ v])
       simp
  from r show "r = None" .
  from w' show "stdout w' = stdout w @ PrintDefaults x (conf w')" by simp
qed

lemma SetField_pointer_unsupported:
  assumes "Kind (Type f) = Pointer" and "\<not> Implements (Type f)"
  shows "SetField x f v ex = Returns (Some (New ''unsupported flag type''), f)"
  using assms by (simp add: SetField_def)

lemma PrintDefaults_lists_field:
  assumes "f \<in> set fs"
  shows "\<exists>before after. PrintDefaults x (StructPtr fs) = before @ longPart x f @ after"
proof -
  from assms obtain a b where fs: "fs = a @ f # b" by (auto dest: split_list)
  let ?w = "maxNameTypeLength x fs"
  have "PrintDefaults x (StructPtr fs) =
          (''Usage:'' @ newline @ concat (map (entryLine x ?w) a) @ ''  '' @ shortPart f @ '' '')
          @ longPart x f
          @ (replicate (?w - length (runes (longPart x f))) CHR '' '' @ ''  '' @ fullUsage f
             @ newline @ concat (map (entryLine x ?w) b))"
    by (simp add: PrintDefaults_def entryLine_def padRight_def fs)
  then show ?thesis by blast
qed

text \<open>
  C10. A field of kind pointer whose type does not implement \<open>encoding.TextUnmarshaler\<close>
  is refused by \<open>SetField\<close> for every value. So the environment pass does not return
  without error when the field's variable is set, nor the flags pass when the mapping
  holds the field's short or long key, nor the defaults pass when the field can be set
  and has a non-empty \<open>default\<close> tag (a pass that does not return without error returns
  an error, or panics at an earlier field). The usage text lists the field, its type
  name prefixed with \<open>*\<close>.
\<close>

theorem pointer_field_unsupported:
  assumes "Kind (Type f) = Pointer" and "ElemType (Type f) = Some elem"
    and "\<not> Implements (Type f)"
    and "conf w = StructPtr fs" and "f \<in> set fs"
  shows "SetField x f v ex = Returns (Some (New ''unsupported flag type''), f)
       \<and> (CanSet f \<and> Get (Tag f) ''default'' \<noteq> [] \<longrightarrow> SetDefaults x w \<noteq> Returns (None, w'))
       \<and> (environ w (envNameOf x f) \<noteq> None \<longrightarrow> ParseEnv x w \<noteq> Returns (None, w'))
       \<and> (snd (ParseArguments args) (Get (Tag f) ''short'') \<noteq> None
            \<or> snd (ParseArguments args) (flagNameOf x f) \<noteq> None
          \<longrightarrow> ParseArgs x w args \<noteq> Returns ((r, None), w'))
       \<and> longPart x f = ''--'' @ ToKebabCase x (Name f) @ '' *'' @ TypeName elem
       \<and> (\<exists>before after. PrintDefaults x (conf w) = before @ longPart x f @ after)"
proof (intro conjI impI)
  have unsupported: "SetField x f u b = Returns (Some (New ''unsupported flag type''), f)" for u b
    using assms(1,3) by (rule SetField_pointer_unsupported)
  show "SetField x f v ex = Returns (Some (New ''unsupported flag type''), f)"
    by (rule unsupported)
  show "longPart x f = ''--'' @ ToKebabCase x (Name f) @ '' *'' @ TypeName elem"
    using assms(1,2) by (simp add: longPart_def typeName_def)
  show "\<exists>before after. PrintDefaults x (conf w) = before @ longPart x f @ after"
    using PrintDefaults_lists_field [OF assms(5)] assms(4) by simp
  show "SetDefaults x w \<noteq> Returns (None, w')"
    if "CanSet f \<and> Get (Tag f) ''default'' \<noteq> []"
  proof
    assume "SetDefaults x w = Returns (None, w')"
    from SetDefaults_success [OF assms(4) this] obtain fs' where
      "fieldLoop (defaultStep x) [] fs = Returns (None, fs')" by blast
    from fieldLoop_every_step [OF this assms(5)] obtain f' where
      "defaultStep x f = Returns (None, f')" by blast
    with that unsupported show False by (simp add: defaultStep_def)
  qed
  show "ParseEnv x w \<noteq> Returns (None, w')" if "environ w (envNameOf x f) \<noteq> None"
  proof
    assume "ParseEnv x w = Returns (None, w')"
    from ParseEnv_success [OF assms(4) this] obtain fs' where
      "fieldLoop (envStep x (environ w)) [] fs = Returns (None, fs')" by blast
    from fieldLoop_every_step [OF this assms(5)] obtain f' where
      "envStep x (environ w) f = Returns (None, f')" by blast
    with that unsupported show False by (auto simp: envStep_def)
  qed
  show "ParseArgs x w args \<noteq> Returns ((r, None), w')"
    if "snd (ParseArguments args) (Get (Tag f) ''short'') \<noteq> None
          \<or> snd (ParseArguments args) (flagNameOf x f) \<noteq> None"
  proof
    assume "ParseArgs x w args = Returns ((r, None), w')"
    from ParseArgs_success [OF assms(4) this] obtain fs' where
      "fieldLoop (setFromFlags x (snd (ParseArguments args))) [] fs = Returns (None, fs')" by blast
    from fieldLoop_every_step [OF this assms(5)] obtain f' where
      "setFromFlags x (snd (ParseArguments args)) f = Returns (None, f')" by blast
    with that unsupported show False by (auto simp: setFromFlags_def split: option.splits)
  qed
qed

theorem pointer_field_unsupported_witness:
  "SetField sampleExt pointerField ''5'' True
     = Returns (Some (New ''unsupported flag type''), pointerField)
   \<and> SetDefaults sampleExt (mkWorld [pointerField] [(''TIMEOUT'', ''5'')])
       \<noteq> Returns (None, mkWorld [pointerField] [(''TIMEOUT'', ''5'')])
   \<and> ParseEnv sampleExt (mkWorld [pointerField] [(''TIMEOUT'', ''5'')])
       \<noteq> Returns (None, mkWorld [pointerField] [(''TIMEOUT'', ''5'')])
   \<and> ParseArgs sampleExt (mkWorld [pointerField] [(''TIMEOUT'', ''5'')]) [''-t'', ''5'']
       \<noteq> Returns ((Some [], None), mkWorld [pointerField] [(''TIMEOUT'', ''5'')])
   \<and> longPart sampleExt pointerField = ''--timeout *int''"
proof -
  let ?w = "mkWorld [pointerField] [(''TIMEOUT'', ''5'')]"
  have k: "Kind (Type pointerField) = Pointer"
    and el: "ElemType (Type pointerField) = Some intType"
    and ni: "\<not> Implements (Type pointerField)"
    and c: "conf ?w = StructPtr [pointerField]"
    and m: "pointerField \<in> set [pointerField]"
    by (simp_all add: pointerField_def mkField_def mkWorld_def PtrTo_def Implements_def intType_def)
  have d: "CanSet pointerField \<and> Get (Tag pointerField) ''default'' \<noteq> []"
    by (simp add: pointerField_def mkField_def Get_def)
  have e: "environ ?w (envNameOf sampleExt pointerField) \<noteq> None"
    by (simp add: envNameOf_def Get_def sample_defs pointerField_def)
  have a: "snd (ParseArguments [''-t'', ''5'']) (Get (Tag pointerField) ''short'') \<noteq> None
            \<or> snd (ParseArguments [''-t'', ''5'']) (flagNameOf sampleExt pointerField) \<noteq> None"
    by (simp add: tokenizer_defs Get_def pointerField_def mkField_def)
  have n: "''--'' @ ToKebabCase sampleExt (Name pointerField) @ '' *'' @ TypeName intType
             = ''--timeout *int''"
    by (simp add: sample_defs pointerField_def)
  from pointer_field_unsupported [OF k el ni c m, of sampleExt "''5''" True ?w "[''-t'', ''5'']" "Some []"]
    d e a n
  show ?thesis by auto
qed

text \<open>
  The defaults pass skips a field that cannot be set (an unexported field), so a
  \<open>default\<close> tag on such a pointer field does not make the pass fail.
\<close>

theorem SetDefaults_skips_unexported_pointer:
  "SetDefaults sampleExt (mkWorld [pointerField\<lparr>Name := ''timeout'', CanSet := False\<rparr>] [])
     = Returns (None, mkWorld [pointerField\<lparr>Name := ''timeout'', CanSet := False\<rparr>] [])"
  by (simp add: pass_defs pointerField_def mkField_def mkWorld_def)

end
